theory Spec2Isabelle
  imports Main
begin

section \<open>Data model: the Todo document and its subtask tree\<close>

text \<open>
  The model follows the Mongoose schemas \<^verbatim>\<open>subTodoSchema\<close> and \<^verbatim>\<open>todoSchema\<close> and the
  controllers of the todo routes. ObjectIds are natural numbers, dates are
  milliseconds since the epoch, \<^verbatim>\<open>null\<close>/\<^verbatim>\<open>undefined\<close> is \<open>None\<close>. Enumerated
  strings of the schema are datatypes. Field names are those of the schema; the fields
  of the embedded documents carry a prefix, since record fields share one name space
  (\<open>sub_\<close> subtask, \<open>cm_\<close> comment, \<open>att_\<close> attachment, \<open>log_\<close> activity entry,
  \<open>share_\<close> sharing entry). Schema fields that no controller reads or writes
  (reminder, recurring, customFields, notificationSettings, ...) are left out.
\<close>

type_synonym oid = nat
type_synonym date = int

datatype status = Todo | InProgress | Completed | Blocked | OnHold

datatype priority = Low | Medium | High | Urgent

datatype label = Red | Blue | Green | Yellow | Purple | Orange | Pink | Gray

datatype permission = View | Edit | Admin

datatype action =
  ActCreated | ActUpdated | ActCommented | ActCompleted
  | ActStatusChanged | ActAssigned | ActPriorityChanged

record subdoc =
  sub_id :: oid
  sub_title :: string
  sub_description :: string
  sub_status :: status
  sub_priority :: priority
  sub_completed :: bool
  sub_completedAt :: "date option"
  sub_dueDate :: "date option"

text \<open>A subtask: its own fields and its nested \<^verbatim>\<open>subtasks\<close> array.\<close>

datatype subtodo = SubTodo subdoc "subtodo list"

fun node_fields :: "subtodo \<Rightarrow> subdoc" where
  "node_fields (SubTodo f cs) = f"

fun node_subtasks :: "subtodo \<Rightarrow> subtodo list" where
  "node_subtasks (SubTodo f cs) = cs"

record progress =
  total :: nat
  completed_count :: nat

text \<open>
  The \<^verbatim>\<open>changes\<close> object that \<^verbatim>\<open>updateTodo\<close> builds: one optional \<^verbatim>\<open>{old, new}\<close> pair
  per key.
\<close>

record field_changes =
  ch_title :: "(string \<times> string) option"
  ch_description :: "(string \<times> string) option"
  ch_status :: "(status \<times> status) option"
  ch_priority :: "(priority \<times> priority) option"
  ch_dueDate :: "(date option \<times> date) option"
  ch_category :: "(string \<times> string) option"
  ch_tags :: "(string list \<times> string list) option"
  ch_label :: "(label option \<times> label option) option"

text \<open>The other payloads the controllers store under \<^verbatim>\<open>changes\<close>.\<close>

datatype changes =
  FieldChanges field_changes
  | Added string
  | Updated string
  | TimeLogged int
  | FromTo "oid option" oid
  | Assignee string

record activity =
  action :: action
  log_userId :: oid
  changes :: "changes option"
  timestamp :: date

record comment =
  cm_id :: oid
  cm_userId :: oid
  cm_text :: string
  cm_mentions :: "oid list"
  cm_createdAt :: date
  cm_updatedAt :: "date option"

record attachment =
  att_id :: oid
  att_url :: string
  att_fileName :: string
  att_fileType :: string
  att_fileSize :: nat
  att_uploadedBy :: oid
  att_uploadedAt :: date

record share =
  share_userId :: oid
  permissions :: permission
  sharedAt :: date

record todo =
  tid :: oid
  userId :: oid
  title :: string
  description :: string
  status :: status
  priority :: priority
  completed :: bool
  completedAt :: "date option"
  dueDate :: "date option"
  estimatedTime :: int
  actualTime :: int
  category :: string
  tags :: "string list"
  assignee :: "oid option"
  watchers :: "oid list"
  attachments :: "attachment list"
  comments :: "comment list"
  activityLog :: "activity list"
  subtasks :: "subtodo list"
  parentId :: "oid option"
  checklistProgress :: progress
  sharedWith :: "share list"
  isArchived :: bool
  isDeleted :: bool
  deletedAt :: "date option"
  label :: "label option"

text \<open>The error a controller throws: \<^verbatim>\<open>new ApiError(statusCode, message)\<close>.\<close>

datatype api_error = ApiError nat string

fun statusCode :: "api_error \<Rightarrow> nat" where
  "statusCode (ApiError c m) = c"

section \<open>Schema methods and save hooks\<close>

text \<open>
  \<^verbatim>\<open>todoSchema.methods.getAllSubtasks\<close>: every node of the tree, a node before its
  descendants, pushed onto \<open>result\<close>.
\<close>

fun getAllSubtasks :: "subtodo list \<Rightarrow> subtodo list \<Rightarrow> subtodo list" where
  "getAllSubtasks [] result = result"
| "getAllSubtasks (SubTodo f cs # tasks) result =
     (let result1 = result @ [SubTodo f cs];
          result2 = (if cs \<noteq> [] then getAllSubtasks cs result1 else result1)
      in getAllSubtasks tasks result2)"

text \<open>
  \<^verbatim>\<open>calculateProgress\<close> of the first \<^verbatim>\<open>pre('save')\<close> hook. \<open>calculateLoop\<close> is the
  \<^verbatim>\<open>forEach\<close> over \<open>tasks\<close> with the two counters \<open>(total, completed)\<close> as they stand.
\<close>

fun calculateLoop :: "subtodo list \<Rightarrow> nat \<times> nat \<Rightarrow> nat \<times> nat" where
  "calculateLoop [] (tot, cmp) = (tot, cmp)"
| "calculateLoop (SubTodo f cs # tasks) (tot, cmp) =
     (let tot1 = tot + 1;
          cmp1 = (if sub_completed f then cmp + 1 else cmp);
          inner = calculateLoop cs (0, 0)
      in if cs \<noteq> []
         then calculateLoop tasks (tot1 + fst inner, cmp1 + snd inner)
         else calculateLoop tasks (tot1, cmp1))"

definition calculateProgress :: "subtodo list \<Rightarrow> progress" where
  "calculateProgress tasks =
     (let r = calculateLoop tasks (0, 0) in \<lparr>total = fst r, completed_count = snd r\<rparr>)"

text \<open>First \<^verbatim>\<open>pre('save')\<close> hook: write the recomputed progress onto the document.\<close>

definition preSaveProgress :: "todo \<Rightarrow> todo" where
  "preSaveProgress t = t\<lparr>checklistProgress := calculateProgress (subtasks t)\<rparr>"

text \<open>
  Second \<^verbatim>\<open>pre('save')\<close> hook. \<open>isModified\<close> and \<open>isNew\<close> are Mongoose's flags of the
  document being saved; the entry is signed with the document's own \<^verbatim>\<open>userId\<close>.
\<close>

definition preSaveActivity :: "date \<Rightarrow> bool \<Rightarrow> bool \<Rightarrow> todo \<Rightarrow> todo" where
  "preSaveActivity now isModified isNew t =
     (if isModified \<and> \<not> isNew
      then t\<lparr>activityLog := activityLog t @
             [\<lparr>action = ActUpdated, log_userId = userId t, changes = None, timestamp = now\<rparr>]\<rparr>
      else t)"

section \<open>The collection\<close>

text \<open>
  The \<^verbatim>\<open>todos\<close> collection is the list of its documents. \<^verbatim>\<open>findById\<close> returns the
  first document with the id, and a write to an id replaces that document.
\<close>

fun findById :: "oid \<Rightarrow> todo list \<Rightarrow> todo option" where
  "findById i [] = None"
| "findById i (d # ds) = (if tid d = i then Some d else findById i ds)"

fun replaceOne :: "todo \<Rightarrow> todo list \<Rightarrow> todo list" where
  "replaceOne t [] = []"
| "replaceOne t (d # ds) = (if tid d = tid t then t # ds else d # replaceOne t ds)"

text \<open>
  \<^verbatim>\<open>todo.save()\<close> on a document that was loaded from the collection (or saved before)
  as \<open>loaded\<close> and has been assigned to since. Mongoose marks a path modified when an
  assignment changes its value or an array is pushed to, so \<^verbatim>\<open>isModified()\<close> in the
  second hook holds when the document, after the first hook, differs from \<open>loaded\<close>.
  Both hooks run, then the document is written. The result is the document as saved
  and the collection.
\<close>

definition save :: "date \<Rightarrow> todo \<Rightarrow> todo \<Rightarrow> todo list \<Rightarrow> todo \<times> todo list" where
  "save now loaded t db =
     (let t1 = preSaveProgress t;
          t2 = preSaveActivity now (t1 \<noteq> loaded) False t1
      in (t2, replaceOne t2 db))"

text \<open>\<^verbatim>\<open>Todo.create(data)\<close>: the hooks run on a new document, which is then inserted.\<close>

definition create :: "date \<Rightarrow> todo \<Rightarrow> todo list \<Rightarrow> todo \<times> todo list" where
  "create now t db =
     (let t1 = preSaveProgress t;
          t2 = preSaveActivity now True True t1
      in (t2, db @ [t2]))"

section \<open>Request bodies\<close>

text \<open>
  \<^verbatim>\<open>req.body\<close> of the todo routes, one optional slot per key that \<^verbatim>\<open>createTodo\<close>
  and \<^verbatim>\<open>updateTodo\<close> destructure. \<open>None\<close> is \<^verbatim>\<open>undefined\<close>; for \<^verbatim>\<open>label\<close>, \<open>Some None\<close>
  is an explicit \<^verbatim>\<open>null\<close>. A due date is the instant the given date string denotes.
\<close>

record todo_body =
  b_title :: "string option"
  b_description :: "string option"
  b_status :: "status option"
  b_priority :: "priority option"
  b_dueDate :: "date option"
  b_category :: "string option"
  b_tags :: "string list option"
  b_label :: "label option option"

text \<open>\<^verbatim>\<open>req.body\<close> of the subtask routes.\<close>

record subtask_body =
  sb_title :: "string option"
  sb_description :: "string option"
  sb_status :: "status option"
  sb_priority :: "priority option"
  sb_dueDate :: "date option"
  sb_completed :: "bool option"

text \<open>JavaScript truthiness of an optional string: present and not empty.\<close>

fun truthy :: "string option \<Rightarrow> bool" where
  "truthy None = False"
| "truthy (Some s) = (s \<noteq> [])"

text \<open>\<^verbatim>\<open>x || d\<close> on an optional string.\<close>

fun orElse :: "string option \<Rightarrow> string \<Rightarrow> string" where
  "orElse None d = d"
| "orElse (Some s) d = (if s \<noteq> [] then s else d)"

text \<open>
  \<^verbatim>\<open>String.prototype.trim\<close>, with the white space and line terminators that fit in one
  character.
\<close>

definition isWhiteSpace :: "char \<Rightarrow> bool" where
  "isWhiteSpace c = (of_char c \<in> {9, 10, 11, 12, 13, 32, 160 :: nat})"

definition trim :: "string \<Rightarrow> string" where
  "trim s = rev (dropWhile isWhiteSpace (rev (dropWhile isWhiteSpace s)))"

text \<open>
  \<^verbatim>\<open>validateSubtask\<close>, the middleware in front of both subtask routes that carry a
  body: the checks on \<^verbatim>\<open>title\<close> and \<^verbatim>\<open>description\<close>. Its type and enumeration checks
  are the types of \<open>subtask_body\<close>, and \<^verbatim>\<open>estimatedTime\<close> is a key the controllers do not
  read. \<open>None\<close> is \<^verbatim>\<open>next()\<close>.
\<close>

definition validateSubtask :: "subtask_body \<Rightarrow> api_error option" where
  "validateSubtask b =
     (case sb_title b of
        None \<Rightarrow> Some (ApiError 400 ''Subtask title is required'')
      | Some t \<Rightarrow>
          if t = [] then Some (ApiError 400 ''Subtask title is required'')
          else if length (trim t) = 0 then Some (ApiError 400 ''Subtask title cannot be empty'')
          else if length t < 3
            then Some (ApiError 400 ''Subtask title must be at least 3 characters long'')
          else if length t > 200
            then Some (ApiError 400 ''Subtask title cannot exceed 200 characters'')
          else (case sb_description b of
                  None \<Rightarrow> None
                | Some d \<Rightarrow>
                    if length d > 1000
                    then Some (ApiError 400 ''Subtask description cannot exceed 1000 characters'')
                    else None))"

section \<open>Controllers: create and subtasks\<close>

text \<open>
  A document as \<^verbatim>\<open>Todo.create\<close> builds it from the schema defaults, before the given
  fields are set.
\<close>

definition schemaDefaults :: "oid \<Rightarrow> oid \<Rightarrow> todo" where
  "schemaDefaults nid uid =
     \<lparr>tid = nid, userId = uid, title = [], description = [], status = Todo,
      priority = Medium, completed = False, completedAt = None, dueDate = None,
      estimatedTime = 0, actualTime = 0, category = ''general'', tags = [],
      assignee = None, watchers = [], attachments = [], comments = [],
      activityLog = [], subtasks = [], parentId = None,
      checklistProgress = \<lparr>total = 0, completed_count = 0\<rparr>, sharedWith = [],
      isArchived = False, isDeleted = False, deletedAt = None, label = None\<rparr>"

text \<open>
  Every controller takes the clock \<open>now\<close> (each \<^verbatim>\<open>new Date()\<close> of one request reads the
  same instant), the authenticated \<^verbatim>\<open>req.userId\<close> as \<open>uid\<close>, and the collection; where
  Mongoose generates an ObjectId for a new document or subdocument it is \<open>nid\<close>. The
  result is the thrown error, or the document of the response with the collection.
\<close>

definition createTodo ::
  "date \<Rightarrow> oid \<Rightarrow> oid \<Rightarrow> todo_body \<Rightarrow> todo list \<Rightarrow> api_error + todo \<times> todo list" where
  "createTodo now nid uid b db =
     (if \<not> truthy (b_title b) then Inl (ApiError 400 ''Todo title is required'')
      else Inr (create now
        ((schemaDefaults nid uid)
          \<lparr>title := orElse (b_title b) [],
           description := orElse (b_description b) [],
           priority := (case b_priority b of Some p \<Rightarrow> p | None \<Rightarrow> Medium),
           dueDate := b_dueDate b,
           category := orElse (b_category b) ''general'',
           tags := (case b_tags b of Some ts \<Rightarrow> ts | None \<Rightarrow> []),
           status := Todo,
           activityLog :=
             [\<lparr>action = ActCreated, log_userId = uid, changes = None, timestamp = now\<rparr>]\<rparr>)
        db))"

text \<open>The permission check of the controllers that consult \<^verbatim>\<open>sharedWith\<close>.\<close>

definition ownerOrShared :: "todo \<Rightarrow> oid \<Rightarrow> bool" where
  "ownerOrShared t uid = (userId t = uid \<or> uid \<in> set (map share_userId (sharedWith t)))"

definition addSubtask ::
  "date \<Rightarrow> oid \<Rightarrow> oid \<Rightarrow> oid \<Rightarrow> subtask_body \<Rightarrow> todo list \<Rightarrow> api_error + todo \<times> todo list"
  where
  "addSubtask now nid uid todoId b db =
     (if \<not> truthy (sb_title b) then Inl (ApiError 400 ''Subtask title is required'')
      else case findById todoId db of
        None \<Rightarrow> Inl (ApiError 404 ''Todo not found'')
      | Some t \<Rightarrow>
          if \<not> ownerOrShared t uid then Inl (ApiError 403 ''Permission denied'')
          else
            let newSubtask = SubTodo
                  \<lparr>sub_id = nid, sub_title = orElse (sb_title b) [],
                   sub_description = orElse (sb_description b) [],
                   sub_status = Todo,
                   sub_priority = (case sb_priority b of Some p \<Rightarrow> p | None \<Rightarrow> Medium),
                   sub_completed = False, sub_completedAt = None,
                   sub_dueDate = sb_dueDate b\<rparr> [];
                t1 = t\<lparr>subtasks := subtasks t @ [newSubtask]\<rparr>;
                t2 = t1\<lparr>activityLog := activityLog t1 @
                       [\<lparr>action = ActUpdated, log_userId = uid,
                         changes = Some (Added ''subtask''), timestamp = now\<rparr>]\<rparr>
            in Inr (save now t t2 db))"

text \<open>
  The assignments of \<^verbatim>\<open>findAndUpdateSubtask\<close> to the matching node \<^verbatim>\<open>subtasks[i]\<close>, in
  the order of the source.
\<close>

definition applySubtaskBody :: "date \<Rightarrow> subtask_body \<Rightarrow> subdoc \<Rightarrow> subdoc" where
  "applySubtaskBody now b f =
     (let f1 = (case sb_title b of
                  Some t \<Rightarrow> if t \<noteq> [] then f\<lparr>sub_title := t\<rparr> else f | None \<Rightarrow> f);
          f2 = (case sb_description b of
                  Some d \<Rightarrow> f1\<lparr>sub_description := d\<rparr> | None \<Rightarrow> f1);
          f3 = (case sb_status b of Some s \<Rightarrow> f2\<lparr>sub_status := s\<rparr> | None \<Rightarrow> f2);
          f4 = (case sb_priority b of Some p \<Rightarrow> f3\<lparr>sub_priority := p\<rparr> | None \<Rightarrow> f3);
          f5 = (case sb_dueDate b of Some d \<Rightarrow> f4\<lparr>sub_dueDate := Some d\<rparr> | None \<Rightarrow> f4)
      in case sb_completed b of
           None \<Rightarrow> f5
         | Some c \<Rightarrow>
             (let f6 = f5\<lparr>sub_completed := c\<rparr>
              in if c then f6\<lparr>sub_completedAt := Some now\<rparr> else f6))"

text \<open>
  \<^verbatim>\<open>findAndUpdateSubtask(subtasks, id)\<close>: the loop over \<open>subtasks\<close>, which mutates the
  tree in place and returns whether a node was found. The model returns the flag and
  the array as the call leaves it.
\<close>

fun findAndUpdateSubtask ::
  "date \<Rightarrow> subtask_body \<Rightarrow> subtodo list \<Rightarrow> oid \<Rightarrow> bool \<times> subtodo list" where
  "findAndUpdateSubtask now b [] i = (False, [])"
| "findAndUpdateSubtask now b (SubTodo f cs # rest) i =
     (if sub_id f = i then (True, SubTodo (applySubtaskBody now b f) cs # rest)
      else
        let (found, cs1) = (if cs \<noteq> [] then findAndUpdateSubtask now b cs i else (False, cs))
        in if found then (True, SubTodo f cs1 # rest)
           else (let (found2, rest1) = findAndUpdateSubtask now b rest i
                 in (found2, SubTodo f cs1 # rest1)))"

definition updateSubtask ::
  "date \<Rightarrow> oid \<Rightarrow> oid \<Rightarrow> oid \<Rightarrow> subtask_body \<Rightarrow> todo list \<Rightarrow> api_error + todo \<times> todo list"
  where
  "updateSubtask now uid todoId subtaskId b db =
     (case findById todoId db of
        None \<Rightarrow> Inl (ApiError 404 ''Todo not found'')
      | Some t \<Rightarrow>
          if userId t \<noteq> uid then Inl (ApiError 403 ''Permission denied'')
          else
            let (found, subtasks1) = findAndUpdateSubtask now b (subtasks t) subtaskId
            in if \<not> found then Inl (ApiError 404 ''Subtask not found'')
               else
                 let t1 = t\<lparr>subtasks := subtasks1\<rparr>;
                     t2 = t1\<lparr>activityLog := activityLog t1 @
                            [\<lparr>action = ActUpdated, log_userId = uid,
                              changes = Some (Updated ''subtask''), timestamp = now\<rparr>]\<rparr>
                 in Inr (save now t t2 db))"

text \<open>
  \<^verbatim>\<open>deleteSubtaskHelper(subtasks, id)\<close>: \<^verbatim>\<open>splice(i, 1)\<close> removes the first node with the
  id, with its subtree.
\<close>

fun deleteSubtaskHelper :: "subtodo list \<Rightarrow> oid \<Rightarrow> bool \<times> subtodo list" where
  "deleteSubtaskHelper [] i = (False, [])"
| "deleteSubtaskHelper (SubTodo f cs # rest) i =
     (if sub_id f = i then (True, rest)
      else
        let (deleted, cs1) = (if cs \<noteq> [] then deleteSubtaskHelper cs i else (False, cs))
        in if deleted then (True, SubTodo f cs1 # rest)
           else (let (deleted2, rest1) = deleteSubtaskHelper rest i
                 in (deleted2, SubTodo f cs1 # rest1)))"

definition deleteSubtask ::
  "date \<Rightarrow> oid \<Rightarrow> oid \<Rightarrow> oid \<Rightarrow> todo list \<Rightarrow> api_error + todo \<times> todo list" where
  "deleteSubtask now uid todoId subtaskId db =
     (case findById todoId db of
        None \<Rightarrow> Inl (ApiError 404 ''Todo not found'')
      | Some t \<Rightarrow>
          if userId t \<noteq> uid then Inl (ApiError 403 ''Permission denied'')
          else
            let (deleted, subtasks1) = deleteSubtaskHelper (subtasks t) subtaskId
            in if \<not> deleted then Inl (ApiError 404 ''Subtask not found'')
               else Inr (save now t (t\<lparr>subtasks := subtasks1\<rparr>) db))"

section \<open>Controllers: update, completion, time tracking\<close>

text \<open>
  \<^verbatim>\<open>updateTodo\<close> walks the keys of the body in a fixed order; each step may record an
  \<^verbatim>\<open>{old, new}\<close> pair in \<open>changes\<close> and assign the field. A step takes and returns the
  pair of the \<open>changes\<close> object and the document.
\<close>

definition noChanges :: field_changes where
  "noChanges = \<lparr>ch_title = None, ch_description = None, ch_status = None,
                ch_priority = None, ch_dueDate = None, ch_category = None,
                ch_tags = None, ch_label = None\<rparr>"

definition updTitle :: "string option \<Rightarrow> field_changes \<times> todo \<Rightarrow> field_changes \<times> todo" where
  "updTitle v ct =
     (case v of
        Some x \<Rightarrow>
          if x \<noteq> [] \<and> x \<noteq> title (snd ct)
          then ((fst ct)\<lparr>ch_title := Some (title (snd ct), x)\<rparr>, (snd ct)\<lparr>title := x\<rparr>)
          else ct
      | None \<Rightarrow> ct)"

definition updDescription ::
  "string option \<Rightarrow> field_changes \<times> todo \<Rightarrow> field_changes \<times> todo" where
  "updDescription v ct =
     (case v of
        Some x \<Rightarrow>
          if x \<noteq> description (snd ct)
          then ((fst ct)\<lparr>ch_description := Some (description (snd ct), x)\<rparr>,
                (snd ct)\<lparr>description := x\<rparr>)
          else ct
      | None \<Rightarrow> ct)"

definition updStatus :: "status option \<Rightarrow> field_changes \<times> todo \<Rightarrow> field_changes \<times> todo" where
  "updStatus v ct =
     (case v of
        Some x \<Rightarrow>
          if x \<noteq> status (snd ct)
          then ((fst ct)\<lparr>ch_status := Some (status (snd ct), x)\<rparr>, (snd ct)\<lparr>status := x\<rparr>)
          else ct
      | None \<Rightarrow> ct)"

definition updPriority ::
  "priority option \<Rightarrow> field_changes \<times> todo \<Rightarrow> field_changes \<times> todo" where
  "updPriority v ct =
     (case v of
        Some x \<Rightarrow>
          if x \<noteq> priority (snd ct)
          then ((fst ct)\<lparr>ch_priority := Some (priority (snd ct), x)\<rparr>,
                (snd ct)\<lparr>priority := x\<rparr>)
          else ct
      | None \<Rightarrow> ct)"

definition updDueDate :: "date option \<Rightarrow> field_changes \<times> todo \<Rightarrow> field_changes \<times> todo" where
  "updDueDate v ct =
     (case v of
        Some x \<Rightarrow>
          ((fst ct)\<lparr>ch_dueDate := Some (dueDate (snd ct), x)\<rparr>, (snd ct)\<lparr>dueDate := Some x\<rparr>)
      | None \<Rightarrow> ct)"

definition updCategory ::
  "string option \<Rightarrow> field_changes \<times> todo \<Rightarrow> field_changes \<times> todo" where
  "updCategory v ct =
     (case v of
        Some x \<Rightarrow>
          if x \<noteq> [] \<and> x \<noteq> category (snd ct)
          then ((fst ct)\<lparr>ch_category := Some (category (snd ct), x)\<rparr>,
                (snd ct)\<lparr>category := x\<rparr>)
          else ct
      | None \<Rightarrow> ct)"

definition updTags ::
  "string list option \<Rightarrow> field_changes \<times> todo \<Rightarrow> field_changes \<times> todo" where
  "updTags v ct =
     (case v of
        Some x \<Rightarrow> ((fst ct)\<lparr>ch_tags := Some (tags (snd ct), x)\<rparr>, (snd ct)\<lparr>tags := x\<rparr>)
      | None \<Rightarrow> ct)"

definition updLabel ::
  "label option option \<Rightarrow> field_changes \<times> todo \<Rightarrow> field_changes \<times> todo" where
  "updLabel v ct =
     (case v of
        Some x \<Rightarrow>
          if x \<noteq> label (snd ct)
          then ((fst ct)\<lparr>ch_label := Some (label (snd ct), x)\<rparr>, (snd ct)\<lparr>label := x\<rparr>)
          else ct
      | None \<Rightarrow> ct)"

definition applyTodoBody :: "todo_body \<Rightarrow> todo \<Rightarrow> field_changes \<times> todo" where
  "applyTodoBody b t =
     updLabel (b_label b)
      (updTags (b_tags b)
        (updCategory (b_category b)
          (updDueDate (b_dueDate b)
            (updPriority (b_priority b)
              (updStatus (b_status b)
                (updDescription (b_description b)
                  (updTitle (b_title b) (noChanges, t))))))))"

definition updateTodo ::
  "date \<Rightarrow> oid \<Rightarrow> oid \<Rightarrow> todo_body \<Rightarrow> todo list \<Rightarrow> api_error + todo \<times> todo list" where
  "updateTodo now uid todoId b db =
     (case findById todoId db of
        None \<Rightarrow> Inl (ApiError 404 ''Todo not found'')
      | Some t \<Rightarrow>
          if userId t \<noteq> uid then Inl (ApiError 403 ''Permission denied'')
          else
            let (chg, t1) = applyTodoBody b t;
                t2 = (if chg \<noteq> noChanges
                      then t1\<lparr>activityLog := activityLog t1 @
                             [\<lparr>action = ActUpdated, log_userId = uid,
                               changes = Some (FieldChanges chg), timestamp = now\<rparr>]\<rparr>
                      else t1)
            in Inr (save now t t2 db))"

text \<open>\<^verbatim>\<open>todoSchema.methods.complete\<close> and \<^verbatim>\<open>incomplete\<close>: three assignments and a save.\<close>

definition complete :: "date \<Rightarrow> todo \<Rightarrow> todo list \<Rightarrow> todo \<times> todo list" where
  "complete now t db =
     save now t (t\<lparr>completed := True, status := Completed, completedAt := Some now\<rparr>) db"

definition incomplete :: "date \<Rightarrow> todo \<Rightarrow> todo list \<Rightarrow> todo \<times> todo list" where
  "incomplete now t db =
     save now t (t\<lparr>completed := False, status := Todo, completedAt := None\<rparr>) db"

text \<open>
  \<^verbatim>\<open>completeTodo\<close> saves twice: inside \<^verbatim>\<open>todo.complete()\<close>, and again after it has pushed
  its own \<^verbatim>\<open>completed\<close> entry.
\<close>

definition completeTodo ::
  "date \<Rightarrow> oid \<Rightarrow> oid \<Rightarrow> todo list \<Rightarrow> api_error + todo \<times> todo list" where
  "completeTodo now uid todoId db =
     (case findById todoId db of
        None \<Rightarrow> Inl (ApiError 404 ''Todo not found'')
      | Some t \<Rightarrow>
          if userId t \<noteq> uid then Inl (ApiError 403 ''Permission denied'')
          else
            let (t1, db1) = complete now t db;
                t2 = t1\<lparr>activityLog := activityLog t1 @
                       [\<lparr>action = ActCompleted, log_userId = uid, changes = None,
                         timestamp = now\<rparr>]\<rparr>
            in Inr (save now t1 t2 db1))"

definition incompleteTodo ::
  "date \<Rightarrow> oid \<Rightarrow> oid \<Rightarrow> todo list \<Rightarrow> api_error + todo \<times> todo list" where
  "incompleteTodo now uid todoId db =
     (case findById todoId db of
        None \<Rightarrow> Inl (ApiError 404 ''Todo not found'')
      | Some t \<Rightarrow>
          if userId t \<noteq> uid then Inl (ApiError 403 ''Permission denied'')
          else Inr (incomplete now t db))"

text \<open>
  \<^verbatim>\<open>logTimeSpent\<close>. The route \<^verbatim>\<open>POST /:todoId/time-tracking\<close> runs \<^verbatim>\<open>authenticate\<close> and
  then this controller, so the check below is the only one on \<^verbatim>\<open>timeSpent\<close>, here an
  integer number of minutes or absent.
\<close>

definition logTimeSpent ::
  "date \<Rightarrow> oid \<Rightarrow> oid \<Rightarrow> int option \<Rightarrow> todo list \<Rightarrow> api_error + todo \<times> todo list" where
  "logTimeSpent now uid todoId timeSpent db =
     (case timeSpent of
        None \<Rightarrow> Inl (ApiError 400 ''Time spent must be greater than 0'')
      | Some m \<Rightarrow>
          if m = 0 \<or> m \<le> 0 then Inl (ApiError 400 ''Time spent must be greater than 0'')
          else (case findById todoId db of
            None \<Rightarrow> Inl (ApiError 404 ''Todo not found'')
          | Some t \<Rightarrow>
              if userId t \<noteq> uid then Inl (ApiError 403 ''Permission denied'')
              else
                let t1 = t\<lparr>actualTime := actualTime t + m\<rparr>;
                    t2 = t1\<lparr>activityLog := activityLog t1 @
                           [\<lparr>action = ActUpdated, log_userId = uid,
                             changes = Some (TimeLogged m), timestamp = now\<rparr>]\<rparr>
                in Inr (save now t t2 db)))"

text \<open>
  \<^verbatim>\<open>validateTimeTracking\<close> of the validator module, which no route mounts: the checks on
  a numeric \<^verbatim>\<open>timeSpent\<close>.
\<close>

definition validateTimeTracking :: "int option \<Rightarrow> api_error option" where
  "validateTimeTracking timeSpent =
     (case timeSpent of
        None \<Rightarrow> Some (ApiError 400 ''Time spent is required'')
      | Some m \<Rightarrow>
          if m \<le> 0 then Some (ApiError 400 ''Time spent must be greater than 0'')
          else if m > 1440
            then Some (ApiError 400 ''Time spent cannot exceed 24 hours (1440 minutes)'')
          else None)"

section \<open>Controllers: comments and attachments\<close>

definition addComment ::
  "date \<Rightarrow> oid \<Rightarrow> oid \<Rightarrow> oid \<Rightarrow> string option \<Rightarrow> oid list option \<Rightarrow> todo list
     \<Rightarrow> api_error + todo \<times> todo list" where
  "addComment now nid uid todoId text mentions db =
     (if \<not> truthy text \<or> length (trim (orElse text [])) = 0
      then Inl (ApiError 400 ''Comment text is required'')
      else case findById todoId db of
        None \<Rightarrow> Inl (ApiError 404 ''Todo not found'')
      | Some t \<Rightarrow>
          if \<not> ownerOrShared t uid then Inl (ApiError 403 ''Permission denied'')
          else
            let newComment =
                  \<lparr>cm_id = nid, cm_userId = uid, cm_text = orElse text [],
                   cm_mentions = (case mentions of Some ms \<Rightarrow> ms | None \<Rightarrow> []),
                   cm_createdAt = now, cm_updatedAt = None\<rparr>;
                t1 = t\<lparr>comments := comments t @ [newComment]\<rparr>;
                t2 = t1\<lparr>activityLog := activityLog t1 @
                       [\<lparr>action = ActCommented, log_userId = uid, changes = None,
                         timestamp = now\<rparr>]\<rparr>
            in Inr (save now t t2 db))"

text \<open>The two assignments of \<^verbatim>\<open>updateComment\<close> to the comment that \<^verbatim>\<open>find\<close> returned.\<close>

fun editComment :: "oid \<Rightarrow> string \<Rightarrow> date \<Rightarrow> comment list \<Rightarrow> comment list" where
  "editComment i text now [] = []"
| "editComment i text now (c # cs) =
     (if cm_id c = i then c\<lparr>cm_text := text, cm_updatedAt := Some now\<rparr> # cs
      else c # editComment i text now cs)"

definition updateComment ::
  "date \<Rightarrow> oid \<Rightarrow> oid \<Rightarrow> oid \<Rightarrow> string option \<Rightarrow> todo list \<Rightarrow> api_error + todo \<times> todo list"
  where
  "updateComment now uid todoId commentId text db =
     (if \<not> truthy text \<or> length (trim (orElse text [])) = 0
      then Inl (ApiError 400 ''Comment text is required'')
      else case findById todoId db of
        None \<Rightarrow> Inl (ApiError 404 ''Todo not found'')
      | Some t \<Rightarrow>
          if userId t \<noteq> uid then Inl (ApiError 403 ''Permission denied'')
          else (case find (\<lambda>c. cm_id c = commentId) (comments t) of
            None \<Rightarrow> Inl (ApiError 404 ''Comment not found'')
          | Some c \<Rightarrow>
              if cm_userId c \<noteq> uid
              then Inl (ApiError 403 ''You can only edit your own comments'')
              else Inr (save now t
                     (t\<lparr>comments := editComment commentId (orElse text []) now (comments t)\<rparr>)
                     db)))"

definition deleteComment ::
  "date \<Rightarrow> oid \<Rightarrow> oid \<Rightarrow> oid \<Rightarrow> todo list \<Rightarrow> api_error + todo \<times> todo list" where
  "deleteComment now uid todoId commentId db =
     (case findById todoId db of
        None \<Rightarrow> Inl (ApiError 404 ''Todo not found'')
      | Some t \<Rightarrow>
          if userId t \<noteq> uid then Inl (ApiError 403 ''Permission denied'')
          else (case find (\<lambda>c. cm_id c = commentId) (comments t) of
            None \<Rightarrow> Inl (ApiError 404 ''Comment not found'')
          | Some c \<Rightarrow>
              if cm_userId c \<noteq> uid
              then Inl (ApiError 403 ''You can only delete your own comments'')
              else Inr (save now t
                     (t\<lparr>comments := filter (\<lambda>c. cm_id c \<noteq> commentId) (comments t)\<rparr>) db)))"

record attachment_body =
  ab_url :: "string option"
  ab_fileName :: "string option"
  ab_fileType :: "string option"
  ab_fileSize :: "nat option"

definition addAttachment ::
  "date \<Rightarrow> oid \<Rightarrow> oid \<Rightarrow> oid \<Rightarrow> attachment_body \<Rightarrow> todo list
     \<Rightarrow> api_error + todo \<times> todo list" where
  "addAttachment now nid uid todoId b db =
     (if \<not> truthy (ab_url b) \<or> \<not> truthy (ab_fileName b)
      then Inl (ApiError 400 ''URL and file name are required'')
      else case findById todoId db of
        None \<Rightarrow> Inl (ApiError 404 ''Todo not found'')
      | Some t \<Rightarrow>
          if userId t \<noteq> uid then Inl (ApiError 403 ''Permission denied'')
          else
            let att =
                  \<lparr>att_id = nid, att_url = orElse (ab_url b) [],
                   att_fileName = orElse (ab_fileName b) [],
                   att_fileType = orElse (ab_fileType b) ''file'',
                   att_fileSize = (case ab_fileSize b of Some n \<Rightarrow> n | None \<Rightarrow> 0),
                   att_uploadedBy = uid, att_uploadedAt = now\<rparr>
            in Inr (save now t (t\<lparr>attachments := attachments t @ [att]\<rparr>) db))"

definition deleteAttachment ::
  "date \<Rightarrow> oid \<Rightarrow> oid \<Rightarrow> oid \<Rightarrow> todo list \<Rightarrow> api_error + todo \<times> todo list" where
  "deleteAttachment now uid todoId attachmentId db =
     (case findById todoId db of
        None \<Rightarrow> Inl (ApiError 404 ''Todo not found'')
      | Some t \<Rightarrow>
          if userId t \<noteq> uid then Inl (ApiError 403 ''Permission denied'')
          else Inr (save now t
                 (t\<lparr>attachments := filter (\<lambda>a. att_id a \<noteq> attachmentId) (attachments t)\<rparr>)
                 db))"

section \<open>Controllers: sharing, archive, deletion\<close>

text \<open>\<^verbatim>\<open>validPermissions.includes(permissions)\<close>, and the schema value of a valid string.\<close>

definition parsePermission :: "string \<Rightarrow> permission option" where
  "parsePermission p =
     (if p = ''view'' then Some View
      else if p = ''edit'' then Some Edit
      else if p = ''admin'' then Some Admin
      else None)"

text \<open>
  \<^verbatim>\<open>shareTodo\<close>. \<open>users\<close> holds the ids that \<^verbatim>\<open>User.findById\<close> resolves. The default
  \<^verbatim>\<open>'view'\<close> stands in for an absent \<^verbatim>\<open>permissions\<close>.
\<close>

definition shareTodo ::
  "date \<Rightarrow> oid set \<Rightarrow> oid \<Rightarrow> oid \<Rightarrow> oid option \<Rightarrow> string option \<Rightarrow> todo list
     \<Rightarrow> api_error + todo \<times> todo list" where
  "shareTodo now users currentUserId todoId shareWithUserId perms db =
     (case shareWithUserId of
        None \<Rightarrow> Inl (ApiError 400 ''User ID is required'')
      | Some target \<Rightarrow>
          (case parsePermission (case perms of None \<Rightarrow> ''view'' | Some p \<Rightarrow> p) of
             None \<Rightarrow> Inl (ApiError 400 ''Invalid permissions'')
           | Some perm \<Rightarrow>
               (case findById todoId db of
                  None \<Rightarrow> Inl (ApiError 404 ''Todo not found'')
                | Some t \<Rightarrow>
                    if userId t \<noteq> currentUserId then Inl (ApiError 403 ''Permission denied'')
                    else if target \<in> set (map share_userId (sharedWith t))
                      then Inl (ApiError 400 ''Todo already shared with this user'')
                    else if target \<notin> users then Inl (ApiError 404 ''User not found'')
                    else Inr (save now t
                           (t\<lparr>sharedWith := sharedWith t @
                                [\<lparr>share_userId = target, permissions = perm,
                                  sharedAt = now\<rparr>]\<rparr>) db))))"

definition revokeTodoShare ::
  "date \<Rightarrow> oid \<Rightarrow> oid \<Rightarrow> oid \<Rightarrow> todo list \<Rightarrow> api_error + todo \<times> todo list" where
  "revokeTodoShare now currentUserId todoId shareWithUserId db =
     (case findById todoId db of
        None \<Rightarrow> Inl (ApiError 404 ''Todo not found'')
      | Some t \<Rightarrow>
          if userId t \<noteq> currentUserId then Inl (ApiError 403 ''Permission denied'')
          else Inr (save now t
                 (t\<lparr>sharedWith :=
                      filter (\<lambda>s. share_userId s \<noteq> shareWithUserId) (sharedWith t)\<rparr>) db))"

definition archiveTodo ::
  "date \<Rightarrow> oid \<Rightarrow> oid \<Rightarrow> todo list \<Rightarrow> api_error + todo \<times> todo list" where
  "archiveTodo now uid todoId db =
     (case findById todoId db of
        None \<Rightarrow> Inl (ApiError 404 ''Todo not found'')
      | Some t \<Rightarrow>
          if userId t \<noteq> uid then Inl (ApiError 403 ''Permission denied'')
          else Inr (save now t (t\<lparr>isArchived := True\<rparr>) db))"

definition unarchiveTodo ::
  "date \<Rightarrow> oid \<Rightarrow> oid \<Rightarrow> todo list \<Rightarrow> api_error + todo \<times> todo list" where
  "unarchiveTodo now uid todoId db =
     (case findById todoId db of
        None \<Rightarrow> Inl (ApiError 404 ''Todo not found'')
      | Some t \<Rightarrow>
          if userId t \<noteq> uid then Inl (ApiError 403 ''Permission denied'')
          else Inr (save now t (t\<lparr>isArchived := False\<rparr>) db))"

text \<open>
  \<^verbatim>\<open>todoSchema.statics.softDelete\<close>: \<^verbatim>\<open>findByIdAndUpdate\<close> writes the two fields of the
  document with the id; no save hook runs.
\<close>

definition softDelete :: "date \<Rightarrow> oid \<Rightarrow> todo list \<Rightarrow> todo list" where
  "softDelete now todoId db =
     (case findById todoId db of
        None \<Rightarrow> db
      | Some d \<Rightarrow> replaceOne (d\<lparr>isDeleted := True, deletedAt := Some now\<rparr>) db)"

text \<open>\<^verbatim>\<open>deleteTodo\<close> answers with \<^verbatim>\<open>null\<close> data: the result is the collection alone.\<close>

definition deleteTodo :: "date \<Rightarrow> oid \<Rightarrow> oid \<Rightarrow> todo list \<Rightarrow> api_error + todo list" where
  "deleteTodo now uid todoId db =
     (case findById todoId db of
        None \<Rightarrow> Inl (ApiError 404 ''Todo not found'')
      | Some t \<Rightarrow>
          if userId t \<noteq> uid then Inl (ApiError 403 ''Permission denied'')
          else Inr (softDelete now todoId db))"

text \<open>
  \<^verbatim>\<open>bulkDeleteTodos\<close>: the ownership query must return as many documents as ids were
  given; \<^verbatim>\<open>updateMany\<close> then writes the two fields of every document the filter matches.
\<close>

definition bulkDeleteTodos ::
  "date \<Rightarrow> oid \<Rightarrow> oid list \<Rightarrow> todo list \<Rightarrow> api_error + todo list" where
  "bulkDeleteTodos now uid todoIds db =
     (if todoIds = [] then Inl (ApiError 400 ''Todo IDs array is required'')
      else
        let todos = filter (\<lambda>d. tid d \<in> set todoIds \<and> userId d = uid) db
        in if length todos \<noteq> length todoIds
           then Inl (ApiError 403 ''Some todos do not belong to you'')
           else Inr (map (\<lambda>d. if tid d \<in> set todoIds \<and> userId d = uid
                               then d\<lparr>isDeleted := True, deletedAt := Some now\<rparr> else d) db))"

section \<open>Controllers: assignment, watchers, duplication\<close>

definition assignTodo ::
  "date \<Rightarrow> oid set \<Rightarrow> oid \<Rightarrow> oid \<Rightarrow> oid option \<Rightarrow> todo list \<Rightarrow> api_error + todo \<times> todo list"
  where
  "assignTodo now users uid todoId assigneeId db =
     (case assigneeId of
        None \<Rightarrow> Inl (ApiError 400 ''Assignee ID is required'')
      | Some a \<Rightarrow>
          (case findById todoId db of
             None \<Rightarrow> Inl (ApiError 404 ''Todo not found'')
           | Some t \<Rightarrow>
               if userId t \<noteq> uid then Inl (ApiError 403 ''Permission denied'')
               else if a \<notin> users then Inl (ApiError 404 ''Assignee not found'')
               else
                 let oldAssignee = assignee t;
                     t1 = t\<lparr>assignee := Some a\<rparr>;
                     t2 = t1\<lparr>activityLog := activityLog t1 @
                            [\<lparr>action = ActAssigned, log_userId = uid,
                              changes = Some (FromTo oldAssignee a), timestamp = now\<rparr>]\<rparr>
                 in Inr (save now t t2 db)))"

definition unassignTodo ::
  "date \<Rightarrow> oid \<Rightarrow> oid \<Rightarrow> todo list \<Rightarrow> api_error + todo \<times> todo list" where
  "unassignTodo now uid todoId db =
     (case findById todoId db of
        None \<Rightarrow> Inl (ApiError 404 ''Todo not found'')
      | Some t \<Rightarrow>
          if userId t \<noteq> uid then Inl (ApiError 403 ''Permission denied'')
          else
            let t1 = t\<lparr>assignee := None\<rparr>;
                t2 = t1\<lparr>activityLog := activityLog t1 @
                       [\<lparr>action = ActUpdated, log_userId = uid,
                         changes = Some (Assignee ''unassigned''), timestamp = now\<rparr>]\<rparr>
            in Inr (save now t t2 db))"

definition addWatcher ::
  "date \<Rightarrow> oid set \<Rightarrow> oid \<Rightarrow> oid \<Rightarrow> oid option \<Rightarrow> todo list \<Rightarrow> api_error + todo \<times> todo list"
  where
  "addWatcher now users uid todoId watcherId db =
     (case watcherId of
        None \<Rightarrow> Inl (ApiError 400 ''Watcher ID is required'')
      | Some w \<Rightarrow>
          (case findById todoId db of
             None \<Rightarrow> Inl (ApiError 404 ''Todo not found'')
           | Some t \<Rightarrow>
               if \<not> ownerOrShared t uid then Inl (ApiError 403 ''Permission denied'')
               else if w \<notin> users then Inl (ApiError 404 ''Watcher not found'')
               else if w \<in> set (watchers t)
                 then Inl (ApiError 400 ''User is already watching this todo'')
               else Inr (save now t (t\<lparr>watchers := watchers t @ [w]\<rparr>) db)))"

definition removeWatcher ::
  "date \<Rightarrow> oid \<Rightarrow> oid \<Rightarrow> oid \<Rightarrow> todo list \<Rightarrow> api_error + todo \<times> todo list" where
  "removeWatcher now uid todoId watcherId db =
     (case findById todoId db of
        None \<Rightarrow> Inl (ApiError 404 ''Todo not found'')
      | Some t \<Rightarrow>
          if \<not> ownerOrShared t uid then Inl (ApiError 403 ''Permission denied'')
          else Inr (save now t (t\<lparr>watchers := filter (\<lambda>w. w \<noteq> watcherId) (watchers t)\<rparr>) db))"

text \<open>
  \<^verbatim>\<open>JSON.parse(JSON.stringify(subtasks))\<close>: a new tree, built node by node from the
  fields of the old one (the ids among them).
\<close>

fun jsonCopy :: "subtodo \<Rightarrow> subtodo" where
  "jsonCopy (SubTodo f cs) =
     SubTodo
       \<lparr>sub_id = sub_id f, sub_title = sub_title f, sub_description = sub_description f,
        sub_status = sub_status f, sub_priority = sub_priority f,
        sub_completed = sub_completed f, sub_completedAt = sub_completedAt f,
        sub_dueDate = sub_dueDate f\<rparr>
       (map jsonCopy cs)"

definition duplicateTodo ::
  "date \<Rightarrow> oid \<Rightarrow> oid \<Rightarrow> oid \<Rightarrow> todo list \<Rightarrow> api_error + todo \<times> todo list" where
  "duplicateTodo now nid uid todoId db =
     (case findById todoId db of
        None \<Rightarrow> Inl (ApiError 404 ''Todo not found'')
      | Some originalTodo \<Rightarrow>
          if userId originalTodo \<noteq> uid then Inl (ApiError 403 ''Permission denied'')
          else Inr (create now
            ((schemaDefaults nid uid)
              \<lparr>title := title originalTodo @ '' (Copy)'',
               description := description originalTodo,
               priority := priority originalTodo,
               category := category originalTodo,
               tags := tags originalTodo,
               estimatedTime := estimatedTime originalTodo,
               subtasks := map jsonCopy (subtasks originalTodo),
               activityLog :=
                 [\<lparr>action = ActCreated, log_userId = uid, changes = None,
                   timestamp = now\<rparr>]\<rparr>)
            db))"

section \<open>The mutation requests on one todo\<close>

text \<open>
  One constructor per route that changes the todo named by \<^verbatim>\<open>:todoId\<close>, with the route
  parameters and body its controller reads.
\<close>

datatype request =
  AddSubtask subtask_body
  | UpdateTodo todo_body
  | UpdateSubtask oid subtask_body
  | DeleteSubtask oid
  | CompleteTodo
  | IncompleteTodo
  | LogTimeSpent "int option"
  | AddComment "string option" "oid list option"
  | UpdateComment oid "string option"
  | DeleteComment oid
  | AddAttachment attachment_body
  | DeleteAttachment oid
  | ShareTodo "oid option" "string option"
  | RevokeTodoShare oid
  | ArchiveTodo
  | UnarchiveTodo
  | DeleteTodo
  | AssignTodo "oid option"
  | UnassignTodo
  | AddWatcher "oid option"
  | RemoveWatcher oid
  | DuplicateTodo

text \<open>The controller of a request, and the collection it leaves.\<close>

fun controller ::
  "date \<Rightarrow> oid \<Rightarrow> oid set \<Rightarrow> oid \<Rightarrow> oid \<Rightarrow> request \<Rightarrow> todo list \<Rightarrow> api_error + todo list"
  where
  "controller now nid users uid i (AddSubtask b) db = map_sum id snd (addSubtask now nid uid i b db)"
| "controller now nid users uid i (UpdateTodo b) db = map_sum id snd (updateTodo now uid i b db)"
| "controller now nid users uid i (UpdateSubtask s b) db =
     map_sum id snd (updateSubtask now uid i s b db)"
| "controller now nid users uid i (DeleteSubtask s) db =
     map_sum id snd (deleteSubtask now uid i s db)"
| "controller now nid users uid i CompleteTodo db = map_sum id snd (completeTodo now uid i db)"
| "controller now nid users uid i IncompleteTodo db = map_sum id snd (incompleteTodo now uid i db)"
| "controller now nid users uid i (LogTimeSpent m) db =
     map_sum id snd (logTimeSpent now uid i m db)"
| "controller now nid users uid i (AddComment text ms) db =
     map_sum id snd (addComment now nid uid i text ms db)"
| "controller now nid users uid i (UpdateComment c text) db =
     map_sum id snd (updateComment now uid i c text db)"
| "controller now nid users uid i (DeleteComment c) db =
     map_sum id snd (deleteComment now uid i c db)"
| "controller now nid users uid i (AddAttachment b) db =
     map_sum id snd (addAttachment now nid uid i b db)"
| "controller now nid users uid i (DeleteAttachment a) db =
     map_sum id snd (deleteAttachment now uid i a db)"
| "controller now nid users uid i (ShareTodo target perms) db =
     map_sum id snd (shareTodo now users uid i target perms db)"
| "controller now nid users uid i (RevokeTodoShare target) db =
     map_sum id snd (revokeTodoShare now uid i target db)"
| "controller now nid users uid i ArchiveTodo db = map_sum id snd (archiveTodo now uid i db)"
| "controller now nid users uid i UnarchiveTodo db = map_sum id snd (unarchiveTodo now uid i db)"
| "controller now nid users uid i DeleteTodo db = deleteTodo now uid i db"
| "controller now nid users uid i (AssignTodo a) db =
     map_sum id snd (assignTodo now users uid i a db)"
| "controller now nid users uid i UnassignTodo db = map_sum id snd (unassignTodo now uid i db)"
| "controller now nid users uid i (AddWatcher w) db =
     map_sum id snd (addWatcher now users uid i w db)"
| "controller now nid users uid i (RemoveWatcher w) db =
     map_sum id snd (removeWatcher now uid i w db)"
| "controller now nid users uid i DuplicateTodo db = map_sum id snd (duplicateTodo now nid uid i db)"

text \<open>
  What a controller checks in \<^verbatim>\<open>req.body\<close> before it looks the todo up: the error of
  that check, if it has one and the body fails it.
\<close>

fun bodyError :: "request \<Rightarrow> api_error option" where
  "bodyError (AddSubtask b) =
     (if \<not> truthy (sb_title b) then Some (ApiError 400 ''Subtask title is required'') else None)"
| "bodyError (LogTimeSpent m) =
     (case m of
        None \<Rightarrow> Some (ApiError 400 ''Time spent must be greater than 0'')
      | Some k \<Rightarrow> if k \<le> 0 then Some (ApiError 400 ''Time spent must be greater than 0'') else None)"
| "bodyError (AddComment text ms) =
     (if \<not> truthy text \<or> length (trim (orElse text [])) = 0
      then Some (ApiError 400 ''Comment text is required'') else None)"
| "bodyError (UpdateComment c text) =
     (if \<not> truthy text \<or> length (trim (orElse text [])) = 0
      then Some (ApiError 400 ''Comment text is required'') else None)"
| "bodyError (AddAttachment b) =
     (if \<not> truthy (ab_url b) \<or> \<not> truthy (ab_fileName b)
      then Some (ApiError 400 ''URL and file name are required'') else None)"
| "bodyError (ShareTodo target perms) =
     (case target of
        None \<Rightarrow> Some (ApiError 400 ''User ID is required'')
      | Some u \<Rightarrow>
          (case parsePermission (case perms of None \<Rightarrow> ''view'' | Some p \<Rightarrow> p) of
             None \<Rightarrow> Some (ApiError 400 ''Invalid permissions'')
           | Some perm \<Rightarrow> None))"
| "bodyError (AssignTodo a) =
     (case a of None \<Rightarrow> Some (ApiError 400 ''Assignee ID is required'') | Some u \<Rightarrow> None)"
| "bodyError (AddWatcher w) =
     (case w of None \<Rightarrow> Some (ApiError 400 ''Watcher ID is required'') | Some u \<Rightarrow> None)"
| "bodyError r = None"

section \<open>Listings, search and statistics\<close>

text \<open>
  A query returns the documents of the collection that its filter object matches;
  \<^verbatim>\<open>sort\<close> and \<^verbatim>\<open>populate\<close>, which reorder and decorate that result, are not modelled.
\<close>

definition getAllTodos ::
  "oid \<Rightarrow> status option \<Rightarrow> priority option \<Rightarrow> string option \<Rightarrow> todo list \<Rightarrow> todo list" where
  "getAllTodos uid st pr cat db =
     filter (\<lambda>d. userId d = uid \<and> isDeleted d = False \<and> parentId d = None
                \<and> (case st of Some s \<Rightarrow> status d = s | None \<Rightarrow> True)
                \<and> (case pr of Some p \<Rightarrow> priority d = p | None \<Rightarrow> True)
                \<and> (if truthy cat then category d = orElse cat [] else True)) db"

definition findByUserAndStatus :: "oid \<Rightarrow> status \<Rightarrow> todo list \<Rightarrow> todo list" where
  "findByUserAndStatus uid s db =
     filter (\<lambda>d. userId d = uid \<and> status d = s \<and> isDeleted d = False) db"

definition findOverdue :: "date \<Rightarrow> oid \<Rightarrow> todo list \<Rightarrow> todo list" where
  "findOverdue now uid db =
     filter (\<lambda>d. userId d = uid
                \<and> (case dueDate d of Some x \<Rightarrow> x < now | None \<Rightarrow> False)
                \<and> completed d = False \<and> isDeleted d = False) db"

definition findByPriority :: "oid \<Rightarrow> priority \<Rightarrow> todo list \<Rightarrow> todo list" where
  "findByPriority uid p db =
     filter (\<lambda>d. userId d = uid \<and> priority d = p \<and> isDeleted d = False) db"

definition getTodosByStatus :: "oid \<Rightarrow> status \<Rightarrow> todo list \<Rightarrow> todo list" where
  "getTodosByStatus uid s db = findByUserAndStatus uid s db"

definition getOverdueTodos :: "date \<Rightarrow> oid \<Rightarrow> todo list \<Rightarrow> todo list" where
  "getOverdueTodos now uid db = findOverdue now uid db"

definition getTodosByPriority :: "oid \<Rightarrow> priority \<Rightarrow> todo list \<Rightarrow> todo list" where
  "getTodosByPriority uid p db = findByPriority uid p db"

definition getArchivedTodos :: "oid \<Rightarrow> todo list \<Rightarrow> todo list" where
  "getArchivedTodos uid db =
     filter (\<lambda>d. userId d = uid \<and> isArchived d = True \<and> isDeleted d = False) db"

text \<open>
  \<^verbatim>\<open>getTodayTodos\<close>; \<open>startOfDay\<close> and \<open>endOfDay\<close> are the two dates the controller
  derives from the server's clock and time zone.
\<close>

definition getTodayTodos :: "date \<Rightarrow> date \<Rightarrow> oid \<Rightarrow> todo list \<Rightarrow> todo list" where
  "getTodayTodos startOfDay endOfDay uid db =
     filter (\<lambda>d. userId d = uid
                \<and> (case dueDate d of Some x \<Rightarrow> startOfDay \<le> x \<and> x \<le> endOfDay | None \<Rightarrow> False)
                \<and> isDeleted d = False) db"

definition getTodosByTag :: "oid \<Rightarrow> string \<Rightarrow> todo list \<Rightarrow> todo list" where
  "getTodosByTag uid tag db =
     filter (\<lambda>d. userId d = uid \<and> tag \<in> set (tags d) \<and> isDeleted d = False) db"

text \<open>\<^verbatim>\<open>Todo.distinct('tags', ...)\<close>: the tags of the matching documents, each once.\<close>

definition getAllTags :: "oid \<Rightarrow> todo list \<Rightarrow> string list" where
  "getAllTags uid db =
     remdups (concat (map tags (filter (\<lambda>d. userId d = uid \<and> isDeleted d = False) db)))"

text \<open>
  \<^verbatim>\<open>searchTodos\<close>. \<open>regex q s\<close> is the database's answer to whether \<open>s\<close> matches the
  regular expression \<open>q\<close> under option \<^verbatim>\<open>i\<close>.
\<close>

definition searchTodos ::
  "(string \<Rightarrow> string \<Rightarrow> bool) \<Rightarrow> oid \<Rightarrow> string \<Rightarrow> todo list \<Rightarrow> api_error + todo list" where
  "searchTodos regex uid query db =
     (if query = [] \<or> length (trim query) < 2
      then Inl (ApiError 400 ''Search query must be at least 2 characters'')
      else Inr (filter (\<lambda>d. userId d = uid \<and> isDeleted d = False
                  \<and> (regex query (title d) \<or> regex query (description d)
                      \<or> list_ex (regex query) (tags d))) db))"

text \<open>
  \<^verbatim>\<open>getTodoStats\<close>: the counts of the response. Its \<^verbatim>\<open>completionPercentage\<close>, a rounded
  floating-point quotient of two of them, is left out.
\<close>

record stats =
  st_total :: nat
  st_todo :: nat
  st_inProgress :: nat
  st_completed :: nat
  st_blocked :: nat
  st_overdue :: nat
  st_urgent :: nat

definition countDocuments :: "(todo \<Rightarrow> bool) \<Rightarrow> todo list \<Rightarrow> nat" where
  "countDocuments p db = length (filter p db)"

definition getTodoStats :: "date \<Rightarrow> oid \<Rightarrow> todo list \<Rightarrow> stats" where
  "getTodoStats now uid db =
     (let todoCount =
            countDocuments (\<lambda>d. userId d = uid \<and> status d = Todo \<and> isDeleted d = False) db;
          inProgressCount =
            countDocuments (\<lambda>d. userId d = uid \<and> status d = InProgress \<and> isDeleted d = False) db;
          completedCount =
            countDocuments (\<lambda>d. userId d = uid \<and> status d = Completed \<and> isDeleted d = False) db;
          blockedCount =
            countDocuments (\<lambda>d. userId d = uid \<and> status d = Blocked \<and> isDeleted d = False) db;
          overdueCount = findOverdue now uid db;
          urgentTodos =
            filter (\<lambda>d. userId d = uid \<and> priority d = Urgent \<and> completed d = False
                       \<and> isDeleted d = False) db
      in \<lparr>st_total = todoCount + inProgressCount + completedCount + blockedCount,
          st_todo = todoCount, st_inProgress = inProgressCount,
          st_completed = completedCount, st_blocked = blockedCount,
          st_overdue = length overdueCount, st_urgent = length urgentTodos\<rparr>)"

section \<open>Notions of the specification\<close>

text \<open>
  The nodes of a subtask tree at all depths, each once, in depth-first order: a node,
  then its descendants, then its later siblings.
\<close>

fun nodes :: "subtodo \<Rightarrow> subdoc list" where
  "nodes (SubTodo f cs) = f # concat (map nodes cs)"

definition tree_nodes :: "subtodo list \<Rightarrow> subdoc list" where
  "tree_nodes ts = concat (map nodes ts)"

text \<open>The shape of a tree: its nodes without their fields.\<close>

datatype shape = Shape "shape list"

fun shape_of :: "subtodo \<Rightarrow> shape" where
  "shape_of (SubTodo f cs) = Shape (map shape_of cs)"

text \<open>The activity entries that carry a \<^verbatim>\<open>changes\<close> payload.\<close>

definition withPayload :: "activity list \<Rightarrow> activity list" where
  "withPayload es = filter (\<lambda>e. changes e \<noteq> None) es"

text \<open>
  A call is a request with its circumstances: the clock, the ObjectId Mongoose would
  generate, the authenticated user and the \<^verbatim>\<open>:todoId\<close> of the route. Calls are served one
  after the other; a rejected call leaves the collection as it was.
\<close>

record call =
  at :: date
  fresh :: oid
  actor :: oid
  target :: oid
  req :: request

fun serve :: "oid set \<Rightarrow> call list \<Rightarrow> todo list \<Rightarrow> todo list" where
  "serve users [] db = db"
| "serve users (c # cs) db =
     serve users cs
       (case controller (at c) (fresh c) users (actor c) (target c) (req c) db of
          Inl e \<Rightarrow> db
        | Inr db1 \<Rightarrow> db1)"

text \<open>The user a share request names, if it is one and names one.\<close>

fun shareTarget :: "request \<Rightarrow> oid option" where
  "shareTarget (ShareTodo u perms) = u"
| "shareTarget r = None"

section \<open>Example documents\<close>

text \<open>
  A todo of user 7, shared with user 2 at \<^verbatim>\<open>edit\<close>, with three subtasks on two levels;
  the first subtask was completed at instant 40.
\<close>

definition pickBrand :: subtodo where
  "pickBrand =
     SubTodo \<lparr>sub_id = 11, sub_title = ''Pick brand'', sub_description = [],
              sub_status = Completed, sub_priority = Medium, sub_completed = True,
              sub_completedAt = Some 40, sub_dueDate = None\<rparr>
       [SubTodo \<lparr>sub_id = 12, sub_title = ''Compare prices'', sub_description = [],
                 sub_status = Todo, sub_priority = Low, sub_completed = False,
                 sub_completedAt = None, sub_dueDate = None\<rparr> []]"

definition goToShop :: subtodo where
  "goToShop =
     SubTodo \<lparr>sub_id = 13, sub_title = ''Go to the shop'', sub_description = [],
              sub_status = Todo, sub_priority = Medium, sub_completed = False,
              sub_completedAt = None, sub_dueDate = None\<rparr> []"

definition buyMilk :: todo where
  "buyMilk =
     (schemaDefaults 1 7)
       \<lparr>title := ''Buy milk'',
        subtasks := [pickBrand, goToShop],
        checklistProgress := \<lparr>total = 3, completed_count = 1\<rparr>,
        sharedWith := [\<lparr>share_userId = 2, permissions = Edit, sharedAt = 5\<rparr>],
        activityLog :=
          [\<lparr>action = ActCreated, log_userId = 7, changes = None, timestamp = 1\<rparr>]\<rparr>"

text \<open>The same todo after a soft delete at instant 50.\<close>

definition deletedMilk :: todo where
  "deletedMilk = buyMilk\<lparr>isDeleted := True, deletedAt := Some 50\<rparr>"

text \<open>Request bodies with no key set.\<close>

definition emptyBody :: todo_body where
  "emptyBody = \<lparr>b_title = None, b_description = None, b_status = None, b_priority = None,
                b_dueDate = None, b_category = None, b_tags = None, b_label = None\<rparr>"

definition emptySubtaskBody :: subtask_body where
  "emptySubtaskBody = \<lparr>sb_title = None, sb_description = None, sb_status = None,
                       sb_priority = None, sb_dueDate = None, sb_completed = None\<rparr>"

text \<open>A subtask body that keeps the title and clears the completed flag.\<close>

definition uncheckBody :: subtask_body where
  "uncheckBody = emptySubtaskBody\<lparr>sb_title := Some ''Pick brand'', sb_completed := Some False\<rparr>"

text \<open>A todo body that sets a new title, and one that sets the status to completed.\<close>

definition retitleBody :: todo_body where
  "retitleBody = emptyBody\<lparr>b_title := Some ''Buy oat milk''\<rparr>"

definition finishBody :: todo_body where
  "finishBody = emptyBody\<lparr>b_title := Some ''Buy milk'', b_status := Some Completed\<rparr>"

section \<open>Checklist progress\<close>

lemma calculateLoop_nodes:
  "calculateLoop tasks acc =
     (fst acc + length (tree_nodes tasks),
      snd acc + length (filter sub_completed (tree_nodes tasks)))"
proof (induction tasks acc rule: calculateLoop.induct)
  case (1 tot cmp)
  show ?case by (simp add: tree_nodes_def)
next
  case (2 f cs tasks tot cmp)
  have inner: "calculateLoop cs (0, 0) =
      (length (tree_nodes cs), length (filter sub_completed (tree_nodes cs)))"
    using "2.IH"(1) [OF refl refl] by simp
  show ?case
  proof (cases "cs = []")
    case True
    then show ?thesis
      using "2.IH"(3) [OF refl refl refl]
      by (simp add: tree_nodes_def)
  next
    case False
    then show ?thesis
      using "2.IH"(2) [OF refl refl refl False] inner
      by (simp add: tree_nodes_def)
  qed
qed

lemma calculateProgress_nodes:
  "calculateProgress tasks =
     \<lparr>total = length (tree_nodes tasks),
      completed_count = length (filter sub_completed (tree_nodes tasks))\<rparr>"
  by (simp add: calculateProgress_def calculateLoop_nodes [of tasks "(0, 0)"])

text \<open>
  The schema's own traversal \<^verbatim>\<open>getAllSubtasks\<close> visits the nodes in the order of
  \<open>tree_nodes\<close>.
\<close>

lemma getAllSubtasks_nodes:
  "map node_fields (getAllSubtasks tasks result) = map node_fields result @ tree_nodes tasks"
proof (induction tasks result rule: getAllSubtasks.induct)
  case (1 result)
  show ?case by (simp add: tree_nodes_def)
next
  case (2 f cs tasks result)
  show ?case
  proof (cases "cs = []")
    case True
    then show ?thesis
      using "2.IH"(2) [OF refl refl] by (simp add: tree_nodes_def Let_def)
  next
    case False
    then show ?thesis
      using "2.IH"(1) [OF refl False] "2.IH"(2) [OF refl refl]
      by (simp add: tree_nodes_def Let_def)
  qed
qed

section \<open>Saving and the collection\<close>

lemma preSaveActivity_subtasks [simp]:
  "subtasks (preSaveActivity now m n t) = subtasks t"
  by (simp add: preSaveActivity_def)

lemma preSaveActivity_progress [simp]:
  "checklistProgress (preSaveActivity now m n t) = checklistProgress t"
  by (simp add: preSaveActivity_def)

lemma save_progress [simp]:
  "checklistProgress (fst (save now loaded t db)) = calculateProgress (subtasks t)"
  by (simp add: save_def Let_def preSaveProgress_def)

lemma create_fst: "fst (create now t db) = preSaveProgress t"
  by (simp add: create_def Let_def preSaveActivity_def)

lemma create_snd: "snd (create now t db) = db @ [preSaveProgress t]"
  by (simp add: create_def Let_def preSaveActivity_def)

lemma findById_tid: "findById i db = Some d \<Longrightarrow> tid d = i"
  by (induction db) (auto split: if_splits)

lemma findById_replaceOne:
  "findById i (replaceOne t db) =
     (if i = tid t then (case findById i db of None \<Rightarrow> None | Some d \<Rightarrow> Some t)
      else findById i db)"
  by (induction db) auto

lemma findById_append:
  "findById i (db @ [c]) =
     (case findById i db of Some d \<Rightarrow> Some d | None \<Rightarrow> if tid c = i then Some c else None)"
  by (induction db) auto

lemma save_fst:
  "fst (save now loaded t db) =
     preSaveActivity now (preSaveProgress t \<noteq> loaded) False (preSaveProgress t)"
  by (simp add: save_def Let_def)

lemma save_snd: "snd (save now loaded t db) = replaceOne (fst (save now loaded t db)) db"
  by (simp add: save_def Let_def)

lemma preSaveActivity_keeps [simp]:
  "tid (preSaveActivity now m n t) = tid t"
  "userId (preSaveActivity now m n t) = userId t"
  "title (preSaveActivity now m n t) = title t"
  "description (preSaveActivity now m n t) = description t"
  "status (preSaveActivity now m n t) = status t"
  "priority (preSaveActivity now m n t) = priority t"
  "completed (preSaveActivity now m n t) = completed t"
  "completedAt (preSaveActivity now m n t) = completedAt t"
  "dueDate (preSaveActivity now m n t) = dueDate t"
  "actualTime (preSaveActivity now m n t) = actualTime t"
  "category (preSaveActivity now m n t) = category t"
  "tags (preSaveActivity now m n t) = tags t"
  "label (preSaveActivity now m n t) = label t"
  "attachments (preSaveActivity now m n t) = attachments t"
  "comments (preSaveActivity now m n t) = comments t"
  "sharedWith (preSaveActivity now m n t) = sharedWith t"
  "isDeleted (preSaveActivity now m n t) = isDeleted t"
  "isArchived (preSaveActivity now m n t) = isArchived t"
  by (simp_all add: preSaveActivity_def)

lemma preSaveProgress_keeps [simp]:
  "tid (preSaveProgress t) = tid t"
  "userId (preSaveProgress t) = userId t"
  "title (preSaveProgress t) = title t"
  "description (preSaveProgress t) = description t"
  "status (preSaveProgress t) = status t"
  "priority (preSaveProgress t) = priority t"
  "completed (preSaveProgress t) = completed t"
  "completedAt (preSaveProgress t) = completedAt t"
  "dueDate (preSaveProgress t) = dueDate t"
  "actualTime (preSaveProgress t) = actualTime t"
  "category (preSaveProgress t) = category t"
  "tags (preSaveProgress t) = tags t"
  "label (preSaveProgress t) = label t"
  "attachments (preSaveProgress t) = attachments t"
  "comments (preSaveProgress t) = comments t"
  "sharedWith (preSaveProgress t) = sharedWith t"
  "isDeleted (preSaveProgress t) = isDeleted t"
  "isArchived (preSaveProgress t) = isArchived t"
  "subtasks (preSaveProgress t) = subtasks t"
  "activityLog (preSaveProgress t) = activityLog t"
  by (simp_all add: preSaveProgress_def)

lemma save_keeps [simp]:
  "tid (fst (save now loaded t db)) = tid t"
  "userId (fst (save now loaded t db)) = userId t"
  "title (fst (save now loaded t db)) = title t"
  "description (fst (save now loaded t db)) = description t"
  "status (fst (save now loaded t db)) = status t"
  "priority (fst (save now loaded t db)) = priority t"
  "completed (fst (save now loaded t db)) = completed t"
  "completedAt (fst (save now loaded t db)) = completedAt t"
  "dueDate (fst (save now loaded t db)) = dueDate t"
  "actualTime (fst (save now loaded t db)) = actualTime t"
  "category (fst (save now loaded t db)) = category t"
  "tags (fst (save now loaded t db)) = tags t"
  "label (fst (save now loaded t db)) = label t"
  "attachments (fst (save now loaded t db)) = attachments t"
  "comments (fst (save now loaded t db)) = comments t"
  "subtasks (fst (save now loaded t db)) = subtasks t"
  "sharedWith (fst (save now loaded t db)) = sharedWith t"
  "isDeleted (fst (save now loaded t db)) = isDeleted t"
  "isArchived (fst (save now loaded t db)) = isArchived t"
  by (simp_all add: save_fst)

lemma preSaveActivity_log:
  "activityLog (preSaveActivity now m n t) =
     activityLog t @
       (if m \<and> \<not> n
        then [\<lparr>action = ActUpdated, log_userId = userId t, changes = None, timestamp = now\<rparr>]
        else [])"
  by (simp add: preSaveActivity_def)

lemma save_activityLog:
  "activityLog (fst (save now loaded t db)) =
     activityLog t @
       (if preSaveProgress t \<noteq> loaded
        then [\<lparr>action = ActUpdated, log_userId = userId t, changes = None, timestamp = now\<rparr>]
        else [])"
  by (simp only: save_fst preSaveActivity_log preSaveProgress_keeps simp_thms)

lemma findById_save:
  "findById i (snd (save now loaded t db)) =
     (if i = tid t then (case findById i db of None \<Rightarrow> None | Some d \<Rightarrow> Some (fst (save now loaded t db)))
      else findById i db)"
  by (simp add: save_snd findById_replaceOne)

lemma create_eq: "create now t db =
   (t\<lparr>checklistProgress := calculateProgress (subtasks t)\<rparr>,
    db @ [t\<lparr>checklistProgress := calculateProgress (subtasks t)\<rparr>])"
  by (simp add: create_def preSaveProgress_def preSaveActivity_def Let_def)

lemmas controller_defs =
  addSubtask_def updateTodo_def updateSubtask_def deleteSubtask_def completeTodo_def
  incompleteTodo_def logTimeSpent_def addComment_def updateComment_def deleteComment_def
  addAttachment_def deleteAttachment_def shareTodo_def revokeTodoShare_def archiveTodo_def
  unarchiveTodo_def deleteTodo_def assignTodo_def unassignTodo_def addWatcher_def
  removeWatcher_def duplicateTodo_def complete_def incomplete_def softDelete_def



section \<open>The steps of updateTodo\<close>

lemma updTitle_keeps [simp]:
  "tid (snd (updTitle v ct)) = tid (snd ct)"
  "userId (snd (updTitle v ct)) = userId (snd ct)"
  "sharedWith (snd (updTitle v ct)) = sharedWith (snd ct)"
  "activityLog (snd (updTitle v ct)) = activityLog (snd ct)"
  "subtasks (snd (updTitle v ct)) = subtasks (snd ct)"
  "completed (snd (updTitle v ct)) = completed (snd ct)"
  "completedAt (snd (updTitle v ct)) = completedAt (snd ct)"
  "isDeleted (snd (updTitle v ct)) = isDeleted (snd ct)"
  "checklistProgress (snd (updTitle v ct)) = checklistProgress (snd ct)"
  by (simp_all add: updTitle_def split: option.splits)

lemma updDescription_keeps [simp]:
  "tid (snd (updDescription v ct)) = tid (snd ct)"
  "userId (snd (updDescription v ct)) = userId (snd ct)"
  "sharedWith (snd (updDescription v ct)) = sharedWith (snd ct)"
  "activityLog (snd (updDescription v ct)) = activityLog (snd ct)"
  "subtasks (snd (updDescription v ct)) = subtasks (snd ct)"
  "completed (snd (updDescription v ct)) = completed (snd ct)"
  "completedAt (snd (updDescription v ct)) = completedAt (snd ct)"
  "isDeleted (snd (updDescription v ct)) = isDeleted (snd ct)"
  "checklistProgress (snd (updDescription v ct)) = checklistProgress (snd ct)"
  by (simp_all add: updDescription_def split: option.splits)

lemma updStatus_keeps [simp]:
  "tid (snd (updStatus v ct)) = tid (snd ct)"
  "userId (snd (updStatus v ct)) = userId (snd ct)"
  "sharedWith (snd (updStatus v ct)) = sharedWith (snd ct)"
  "activityLog (snd (updStatus v ct)) = activityLog (snd ct)"
  "subtasks (snd (updStatus v ct)) = subtasks (snd ct)"
  "completed (snd (updStatus v ct)) = completed (snd ct)"
  "completedAt (snd (updStatus v ct)) = completedAt (snd ct)"
  "isDeleted (snd (updStatus v ct)) = isDeleted (snd ct)"
  "checklistProgress (snd (updStatus v ct)) = checklistProgress (snd ct)"
  by (simp_all add: updStatus_def split: option.splits)

lemma updPriority_keeps [simp]:
  "tid (snd (updPriority v ct)) = tid (snd ct)"
  "userId (snd (updPriority v ct)) = userId (snd ct)"
  "sharedWith (snd (updPriority v ct)) = sharedWith (snd ct)"
  "activityLog (snd (updPriority v ct)) = activityLog (snd ct)"
  "subtasks (snd (updPriority v ct)) = subtasks (snd ct)"
  "completed (snd (updPriority v ct)) = completed (snd ct)"
  "completedAt (snd (updPriority v ct)) = completedAt (snd ct)"
  "isDeleted (snd (updPriority v ct)) = isDeleted (snd ct)"
  "checklistProgress (snd (updPriority v ct)) = checklistProgress (snd ct)"
  by (simp_all add: updPriority_def split: option.splits)

lemma updDueDate_keeps [simp]:
  "tid (snd (updDueDate v ct)) = tid (snd ct)"
  "userId (snd (updDueDate v ct)) = userId (snd ct)"
  "sharedWith (snd (updDueDate v ct)) = sharedWith (snd ct)"
  "activityLog (snd (updDueDate v ct)) = activityLog (snd ct)"
  "subtasks (snd (updDueDate v ct)) = subtasks (snd ct)"
  "completed (snd (updDueDate v ct)) = completed (snd ct)"
  "completedAt (snd (updDueDate v ct)) = completedAt (snd ct)"
  "isDeleted (snd (updDueDate v ct)) = isDeleted (snd ct)"
  "checklistProgress (snd (updDueDate v ct)) = checklistProgress (snd ct)"
  by (simp_all add: updDueDate_def split: option.splits)

lemma updCategory_keeps [simp]:
  "tid (snd (updCategory v ct)) = tid (snd ct)"
  "userId (snd (updCategory v ct)) = userId (snd ct)"
  "sharedWith (snd (updCategory v ct)) = sharedWith (snd ct)"
  "activityLog (snd (updCategory v ct)) = activityLog (snd ct)"
  "subtasks (snd (updCategory v ct)) = subtasks (snd ct)"
  "completed (snd (updCategory v ct)) = completed (snd ct)"
  "completedAt (snd (updCategory v ct)) = completedAt (snd ct)"
  "isDeleted (snd (updCategory v ct)) = isDeleted (snd ct)"
  "checklistProgress (snd (updCategory v ct)) = checklistProgress (snd ct)"
  by (simp_all add: updCategory_def split: option.splits)

lemma updTags_keeps [simp]:
  "tid (snd (updTags v ct)) = tid (snd ct)"
  "userId (snd (updTags v ct)) = userId (snd ct)"
  "sharedWith (snd (updTags v ct)) = sharedWith (snd ct)"
  "activityLog (snd (updTags v ct)) = activityLog (snd ct)"
  "subtasks (snd (updTags v ct)) = subtasks (snd ct)"
  "completed (snd (updTags v ct)) = completed (snd ct)"
  "completedAt (snd (updTags v ct)) = completedAt (snd ct)"
  "isDeleted (snd (updTags v ct)) = isDeleted (snd ct)"
  "checklistProgress (snd (updTags v ct)) = checklistProgress (snd ct)"
  by (simp_all add: updTags_def split: option.splits)

lemma updLabel_keeps [simp]:
  "tid (snd (updLabel v ct)) = tid (snd ct)"
  "userId (snd (updLabel v ct)) = userId (snd ct)"
  "sharedWith (snd (updLabel v ct)) = sharedWith (snd ct)"
  "activityLog (snd (updLabel v ct)) = activityLog (snd ct)"
  "subtasks (snd (updLabel v ct)) = subtasks (snd ct)"
  "completed (snd (updLabel v ct)) = completed (snd ct)"
  "completedAt (snd (updLabel v ct)) = completedAt (snd ct)"
  "isDeleted (snd (updLabel v ct)) = isDeleted (snd ct)"
  "checklistProgress (snd (updLabel v ct)) = checklistProgress (snd ct)"
  by (simp_all add: updLabel_def split: option.splits)

lemma applyTodoBody_keeps [simp]:
  "tid (snd (applyTodoBody b t)) = tid t"
  "userId (snd (applyTodoBody b t)) = userId t"
  "sharedWith (snd (applyTodoBody b t)) = sharedWith t"
  "activityLog (snd (applyTodoBody b t)) = activityLog t"
  "subtasks (snd (applyTodoBody b t)) = subtasks t"
  "completed (snd (applyTodoBody b t)) = completed t"
  "completedAt (snd (applyTodoBody b t)) = completedAt t"
  "isDeleted (snd (applyTodoBody b t)) = isDeleted t"
  "checklistProgress (snd (applyTodoBody b t)) = checklistProgress t"
  by (simp_all add: applyTodoBody_def)


lemma updTitle_others [simp]:
  "description (snd (updTitle v ct)) = description (snd ct)"
  "ch_description (fst (updTitle v ct)) = ch_description (fst ct)"
  "status (snd (updTitle v ct)) = status (snd ct)"
  "ch_status (fst (updTitle v ct)) = ch_status (fst ct)"
  "priority (snd (updTitle v ct)) = priority (snd ct)"
  "ch_priority (fst (updTitle v ct)) = ch_priority (fst ct)"
  "dueDate (snd (updTitle v ct)) = dueDate (snd ct)"
  "ch_dueDate (fst (updTitle v ct)) = ch_dueDate (fst ct)"
  "category (snd (updTitle v ct)) = category (snd ct)"
  "ch_category (fst (updTitle v ct)) = ch_category (fst ct)"
  "tags (snd (updTitle v ct)) = tags (snd ct)"
  "ch_tags (fst (updTitle v ct)) = ch_tags (fst ct)"
  "label (snd (updTitle v ct)) = label (snd ct)"
  "ch_label (fst (updTitle v ct)) = ch_label (fst ct)"
  by (simp_all add: updTitle_def split: option.splits)

lemma updDescription_others [simp]:
  "title (snd (updDescription v ct)) = title (snd ct)"
  "ch_title (fst (updDescription v ct)) = ch_title (fst ct)"
  "status (snd (updDescription v ct)) = status (snd ct)"
  "ch_status (fst (updDescription v ct)) = ch_status (fst ct)"
  "priority (snd (updDescription v ct)) = priority (snd ct)"
  "ch_priority (fst (updDescription v ct)) = ch_priority (fst ct)"
  "dueDate (snd (updDescription v ct)) = dueDate (snd ct)"
  "ch_dueDate (fst (updDescription v ct)) = ch_dueDate (fst ct)"
  "category (snd (updDescription v ct)) = category (snd ct)"
  "ch_category (fst (updDescription v ct)) = ch_category (fst ct)"
  "tags (snd (updDescription v ct)) = tags (snd ct)"
  "ch_tags (fst (updDescription v ct)) = ch_tags (fst ct)"
  "label (snd (updDescription v ct)) = label (snd ct)"
  "ch_label (fst (updDescription v ct)) = ch_label (fst ct)"
  by (simp_all add: updDescription_def split: option.splits)

lemma updStatus_others [simp]:
  "title (snd (updStatus v ct)) = title (snd ct)"
  "ch_title (fst (updStatus v ct)) = ch_title (fst ct)"
  "description (snd (updStatus v ct)) = description (snd ct)"
  "ch_description (fst (updStatus v ct)) = ch_description (fst ct)"
  "priority (snd (updStatus v ct)) = priority (snd ct)"
  "ch_priority (fst (updStatus v ct)) = ch_priority (fst ct)"
  "dueDate (snd (updStatus v ct)) = dueDate (snd ct)"
  "ch_dueDate (fst (updStatus v ct)) = ch_dueDate (fst ct)"
  "category (snd (updStatus v ct)) = category (snd ct)"
  "ch_category (fst (updStatus v ct)) = ch_category (fst ct)"
  "tags (snd (updStatus v ct)) = tags (snd ct)"
  "ch_tags (fst (updStatus v ct)) = ch_tags (fst ct)"
  "label (snd (updStatus v ct)) = label (snd ct)"
  "ch_label (fst (updStatus v ct)) = ch_label (fst ct)"
  by (simp_all add: updStatus_def split: option.splits)

lemma updPriority_others [simp]:
  "title (snd (updPriority v ct)) = title (snd ct)"
  "ch_title (fst (updPriority v ct)) = ch_title (fst ct)"
  "description (snd (updPriority v ct)) = description (snd ct)"
  "ch_description (fst (updPriority v ct)) = ch_description (fst ct)"
  "status (snd (updPriority v ct)) = status (snd ct)"
  "ch_status (fst (updPriority v ct)) = ch_status (fst ct)"
  "dueDate (snd (updPriority v ct)) = dueDate (snd ct)"
  "ch_dueDate (fst (updPriority v ct)) = ch_dueDate (fst ct)"
  "category (snd (updPriority v ct)) = category (snd ct)"
  "ch_category (fst (updPriority v ct)) = ch_category (fst ct)"
  "tags (snd (updPriority v ct)) = tags (snd ct)"
  "ch_tags (fst (updPriority v ct)) = ch_tags (fst ct)"
  "label (snd (updPriority v ct)) = label (snd ct)"
  "ch_label (fst (updPriority v ct)) = ch_label (fst ct)"
  by (simp_all add: updPriority_def split: option.splits)

lemma updDueDate_others [simp]:
  "title (snd (updDueDate v ct)) = title (snd ct)"
  "ch_title (fst (updDueDate v ct)) = ch_title (fst ct)"
  "description (snd (updDueDate v ct)) = description (snd ct)"
  "ch_description (fst (updDueDate v ct)) = ch_description (fst ct)"
  "status (snd (updDueDate v ct)) = status (snd ct)"
  "ch_status (fst (updDueDate v ct)) = ch_status (fst ct)"
  "priority (snd (updDueDate v ct)) = priority (snd ct)"
  "ch_priority (fst (updDueDate v ct)) = ch_priority (fst ct)"
  "category (snd (updDueDate v ct)) = category (snd ct)"
  "ch_category (fst (updDueDate v ct)) = ch_category (fst ct)"
  "tags (snd (updDueDate v ct)) = tags (snd ct)"
  "ch_tags (fst (updDueDate v ct)) = ch_tags (fst ct)"
  "label (snd (updDueDate v ct)) = label (snd ct)"
  "ch_label (fst (updDueDate v ct)) = ch_label (fst ct)"
  by (simp_all add: updDueDate_def split: option.splits)

lemma updCategory_others [simp]:
  "title (snd (updCategory v ct)) = title (snd ct)"
  "ch_title (fst (updCategory v ct)) = ch_title (fst ct)"
  "description (snd (updCategory v ct)) = description (snd ct)"
  "ch_description (fst (updCategory v ct)) = ch_description (fst ct)"
  "status (snd (updCategory v ct)) = status (snd ct)"
  "ch_status (fst (updCategory v ct)) = ch_status (fst ct)"
  "priority (snd (updCategory v ct)) = priority (snd ct)"
  "ch_priority (fst (updCategory v ct)) = ch_priority (fst ct)"
  "dueDate (snd (updCategory v ct)) = dueDate (snd ct)"
  "ch_dueDate (fst (updCategory v ct)) = ch_dueDate (fst ct)"
  "tags (snd (updCategory v ct)) = tags (snd ct)"
  "ch_tags (fst (updCategory v ct)) = ch_tags (fst ct)"
  "label (snd (updCategory v ct)) = label (snd ct)"
  "ch_label (fst (updCategory v ct)) = ch_label (fst ct)"
  by (simp_all add: updCategory_def split: option.splits)

lemma updTags_others [simp]:
  "title (snd (updTags v ct)) = title (snd ct)"
  "ch_title (fst (updTags v ct)) = ch_title (fst ct)"
  "description (snd (updTags v ct)) = description (snd ct)"
  "ch_description (fst (updTags v ct)) = ch_description (fst ct)"
  "status (snd (updTags v ct)) = status (snd ct)"
  "ch_status (fst (updTags v ct)) = ch_status (fst ct)"
  "priority (snd (updTags v ct)) = priority (snd ct)"
  "ch_priority (fst (updTags v ct)) = ch_priority (fst ct)"
  "dueDate (snd (updTags v ct)) = dueDate (snd ct)"
  "ch_dueDate (fst (updTags v ct)) = ch_dueDate (fst ct)"
  "category (snd (updTags v ct)) = category (snd ct)"
  "ch_category (fst (updTags v ct)) = ch_category (fst ct)"
  "label (snd (updTags v ct)) = label (snd ct)"
  "ch_label (fst (updTags v ct)) = ch_label (fst ct)"
  by (simp_all add: updTags_def split: option.splits)

lemma updLabel_others [simp]:
  "title (snd (updLabel v ct)) = title (snd ct)"
  "ch_title (fst (updLabel v ct)) = ch_title (fst ct)"
  "description (snd (updLabel v ct)) = description (snd ct)"
  "ch_description (fst (updLabel v ct)) = ch_description (fst ct)"
  "status (snd (updLabel v ct)) = status (snd ct)"
  "ch_status (fst (updLabel v ct)) = ch_status (fst ct)"
  "priority (snd (updLabel v ct)) = priority (snd ct)"
  "ch_priority (fst (updLabel v ct)) = ch_priority (fst ct)"
  "dueDate (snd (updLabel v ct)) = dueDate (snd ct)"
  "ch_dueDate (fst (updLabel v ct)) = ch_dueDate (fst ct)"
  "category (snd (updLabel v ct)) = category (snd ct)"
  "ch_category (fst (updLabel v ct)) = ch_category (fst ct)"
  "tags (snd (updLabel v ct)) = tags (snd ct)"
  "ch_tags (fst (updLabel v ct)) = ch_tags (fst ct)"
  by (simp_all add: updLabel_def split: option.splits)

lemma updTitle_own:
  "title (snd (updTitle v ct)) = (case v of Some x \<Rightarrow> if x \<noteq> [] then x else title (snd ct) | None \<Rightarrow> title (snd ct))"
  "ch_title (fst (updTitle v ct)) =
     (case v of Some x \<Rightarrow> if x \<noteq> [] \<and> x \<noteq> title (snd ct) then Some (title (snd ct), x) else ch_title (fst ct) | None \<Rightarrow> ch_title (fst ct))"
  by (simp_all add: updTitle_def split: option.splits)

lemma updDescription_own:
  "description (snd (updDescription v ct)) = (case v of Some x \<Rightarrow> x | None \<Rightarrow> description (snd ct))"
  "ch_description (fst (updDescription v ct)) =
     (case v of Some x \<Rightarrow> if x \<noteq> description (snd ct) then Some (description (snd ct), x) else ch_description (fst ct) | None \<Rightarrow> ch_description (fst ct))"
  by (simp_all add: updDescription_def split: option.splits)

lemma updStatus_own:
  "status (snd (updStatus v ct)) = (case v of Some x \<Rightarrow> x | None \<Rightarrow> status (snd ct))"
  "ch_status (fst (updStatus v ct)) =
     (case v of Some x \<Rightarrow> if x \<noteq> status (snd ct) then Some (status (snd ct), x) else ch_status (fst ct) | None \<Rightarrow> ch_status (fst ct))"
  by (simp_all add: updStatus_def split: option.splits)

lemma updPriority_own:
  "priority (snd (updPriority v ct)) = (case v of Some x \<Rightarrow> x | None \<Rightarrow> priority (snd ct))"
  "ch_priority (fst (updPriority v ct)) =
     (case v of Some x \<Rightarrow> if x \<noteq> priority (snd ct) then Some (priority (snd ct), x) else ch_priority (fst ct) | None \<Rightarrow> ch_priority (fst ct))"
  by (simp_all add: updPriority_def split: option.splits)

lemma updDueDate_own:
  "dueDate (snd (updDueDate v ct)) = (case v of Some x \<Rightarrow> Some x | None \<Rightarrow> dueDate (snd ct))"
  "ch_dueDate (fst (updDueDate v ct)) =
     (case v of Some x \<Rightarrow> Some (dueDate (snd ct), x) | None \<Rightarrow> ch_dueDate (fst ct))"
  by (simp_all add: updDueDate_def split: option.splits)

lemma updCategory_own:
  "category (snd (updCategory v ct)) = (case v of Some x \<Rightarrow> if x \<noteq> [] then x else category (snd ct) | None \<Rightarrow> category (snd ct))"
  "ch_category (fst (updCategory v ct)) =
     (case v of Some x \<Rightarrow> if x \<noteq> [] \<and> x \<noteq> category (snd ct) then Some (category (snd ct), x) else ch_category (fst ct) | None \<Rightarrow> ch_category (fst ct))"
  by (simp_all add: updCategory_def split: option.splits)

lemma updTags_own:
  "tags (snd (updTags v ct)) = (case v of Some x \<Rightarrow> x | None \<Rightarrow> tags (snd ct))"
  "ch_tags (fst (updTags v ct)) =
     (case v of Some x \<Rightarrow> Some (tags (snd ct), x) | None \<Rightarrow> ch_tags (fst ct))"
  by (simp_all add: updTags_def split: option.splits)

lemma updLabel_own:
  "label (snd (updLabel v ct)) = (case v of Some x \<Rightarrow> x | None \<Rightarrow> label (snd ct))"
  "ch_label (fst (updLabel v ct)) =
     (case v of Some x \<Rightarrow> if x \<noteq> label (snd ct) then Some (label (snd ct), x) else ch_label (fst ct) | None \<Rightarrow> ch_label (fst ct))"
  by (simp_all add: updLabel_def split: option.splits)

lemmas upd_own = updTitle_own updDescription_own updStatus_own updPriority_own
  updDueDate_own updCategory_own updTags_own updLabel_own

lemma applyTodoBody_changed:
  "title (snd (applyTodoBody b t)) \<noteq> title t \<longrightarrow>
     ch_title (fst (applyTodoBody b t)) = Some (title t, title (snd (applyTodoBody b t)))"
  "description (snd (applyTodoBody b t)) \<noteq> description t \<longrightarrow>
     ch_description (fst (applyTodoBody b t)) =
       Some (description t, description (snd (applyTodoBody b t)))"
  "status (snd (applyTodoBody b t)) \<noteq> status t \<longrightarrow>
     ch_status (fst (applyTodoBody b t)) = Some (status t, status (snd (applyTodoBody b t)))"
  "priority (snd (applyTodoBody b t)) \<noteq> priority t \<longrightarrow>
     ch_priority (fst (applyTodoBody b t)) =
       Some (priority t, priority (snd (applyTodoBody b t)))"
  "dueDate (snd (applyTodoBody b t)) \<noteq> dueDate t \<longrightarrow>
     (\<exists>x. dueDate (snd (applyTodoBody b t)) = Some x
        \<and> ch_dueDate (fst (applyTodoBody b t)) = Some (dueDate t, x))"
  "category (snd (applyTodoBody b t)) \<noteq> category t \<longrightarrow>
     ch_category (fst (applyTodoBody b t)) =
       Some (category t, category (snd (applyTodoBody b t)))"
  "tags (snd (applyTodoBody b t)) \<noteq> tags t \<longrightarrow>
     ch_tags (fst (applyTodoBody b t)) = Some (tags t, tags (snd (applyTodoBody b t)))"
  "label (snd (applyTodoBody b t)) \<noteq> label t \<longrightarrow>
     ch_label (fst (applyTodoBody b t)) = Some (label t, label (snd (applyTodoBody b t)))"
  by (simp_all add: applyTodoBody_def upd_own noChanges_def split: option.splits)

lemma withPayload_append: "withPayload (xs @ ys) = withPayload xs @ withPayload ys"
  by (simp add: withPayload_def)

lemma updateTodo_owner:
  "findById todoId db = Some t \<Longrightarrow> userId t = uid \<Longrightarrow>
     updateTodo now uid todoId b db =
       Inr (save now t
         (if fst (applyTodoBody b t) \<noteq> noChanges
          then (snd (applyTodoBody b t))\<lparr>activityLog := activityLog (snd (applyTodoBody b t)) @
                 [\<lparr>action = ActUpdated, log_userId = uid,
                   changes = Some (FieldChanges (fst (applyTodoBody b t))), timestamp = now\<rparr>]\<rparr>
          else snd (applyTodoBody b t)) db)"
  by (simp add: updateTodo_def Let_def split_def)

section \<open>The subtask tree engine\<close>

lemma tree_nodes_Cons: "tree_nodes (SubTodo f cs # rest) = f # tree_nodes cs @ tree_nodes rest"
  by (simp add: tree_nodes_def)

lemma tree_nodes_Nil: "tree_nodes [] = []"
  by (simp add: tree_nodes_def)

lemma subtodo_list_induct [case_names Nil Cons]:
  assumes "P []"
    and "\<And>f cs rest. P cs \<Longrightarrow> P rest \<Longrightarrow> P (SubTodo f cs # rest)"
  shows "P ts"
proof (induction "size_list size ts" arbitrary: ts rule: less_induct)
  case less
  show ?case
  proof (cases ts)
    case Nil
    then show ?thesis using assms(1) by simp
  next
    case (Cons t rest)
    obtain f cs where t: "t = SubTodo f cs" by (cases t)
    have "P cs" using less [of cs] Cons t by simp
    moreover have "P rest" using less [of rest] Cons by simp
    ultimately show ?thesis using assms(2) Cons t by simp
  qed
qed

lemma findAndUpdate_Cons:
  "findAndUpdateSubtask now b (SubTodo f cs # rest) i =
     (if sub_id f = i then (True, SubTodo (applySubtaskBody now b f) cs # rest)
      else if fst (findAndUpdateSubtask now b cs i)
        then (True, SubTodo f (snd (findAndUpdateSubtask now b cs i)) # rest)
      else (fst (findAndUpdateSubtask now b rest i),
            SubTodo f (snd (findAndUpdateSubtask now b cs i))
              # snd (findAndUpdateSubtask now b rest i)))"
  by (cases "cs = []") (auto simp: Let_def split: prod.splits)

lemma findAndUpdate_unchanged:
  "\<not> fst (findAndUpdateSubtask now b ts i) \<Longrightarrow> snd (findAndUpdateSubtask now b ts i) = ts"
  by (induction ts rule: subtodo_list_induct)
     (auto simp: findAndUpdate_Cons simp del: findAndUpdateSubtask.simps(2) split: if_splits)

lemma findAndUpdate_found:
  "fst (findAndUpdateSubtask now b ts i) \<longleftrightarrow> i \<in> set (map sub_id (tree_nodes ts))"
  by (induction ts rule: subtodo_list_induct)
     (auto simp: findAndUpdate_Cons tree_nodes_Cons tree_nodes_Nil
           simp del: findAndUpdateSubtask.simps(2) split: if_splits)

lemma findAndUpdate_shape:
  "map shape_of (snd (findAndUpdateSubtask now b ts i)) = map shape_of ts"
  by (induction ts rule: subtodo_list_induct)
     (auto simp: findAndUpdate_Cons simp del: findAndUpdateSubtask.simps(2) split: if_splits)

lemma findAndUpdate_first_match:
  "fst (findAndUpdateSubtask now b ts i) \<Longrightarrow>
     \<exists>pre x post. tree_nodes ts = pre @ x # post \<and> sub_id x = i
        \<and> i \<notin> set (map sub_id pre)
        \<and> tree_nodes (snd (findAndUpdateSubtask now b ts i))
            = pre @ applySubtaskBody now b x # post"
proof (induction ts rule: subtodo_list_induct)
  case Nil
  then show ?case by simp
next
  case (Cons f cs rest)
  show ?case
  proof (cases "sub_id f = i")
    case True
    have "tree_nodes (SubTodo f cs # rest) = [] @ f # (tree_nodes cs @ tree_nodes rest)"
      by (simp add: tree_nodes_Cons)
    moreover have "tree_nodes (snd (findAndUpdateSubtask now b (SubTodo f cs # rest) i))
        = [] @ applySubtaskBody now b f # (tree_nodes cs @ tree_nodes rest)"
      using True by (simp add: findAndUpdate_Cons tree_nodes_Cons del: findAndUpdateSubtask.simps(2))
    ultimately show ?thesis using True by (metis empty_iff list.set(1) list.simps(8))
  next
    case False
    show ?thesis
    proof (cases "fst (findAndUpdateSubtask now b cs i)")
      case True
      from Cons.IH(1) [OF True] obtain pre x post where
        p: "tree_nodes cs = pre @ x # post" "sub_id x = i" "i \<notin> set (map sub_id pre)"
           "tree_nodes (snd (findAndUpdateSubtask now b cs i)) = pre @ applySubtaskBody now b x # post"
        by blast
      have a: "tree_nodes (SubTodo f cs # rest) = (f # pre) @ x # (post @ tree_nodes rest)"
        using p(1) by (simp add: tree_nodes_Cons)
      have b: "tree_nodes (snd (findAndUpdateSubtask now b (SubTodo f cs # rest) i))
          = (f # pre) @ applySubtaskBody now b x # (post @ tree_nodes rest)"
        using False True p(4)
        by (simp add: findAndUpdate_Cons tree_nodes_Cons del: findAndUpdateSubtask.simps(2))
      have c: "i \<notin> set (map sub_id (f # pre))" using False p(3) by auto
      show ?thesis using a b c p(2) by blast
    next
      case nf: False
      have fr: "fst (findAndUpdateSubtask now b rest i)"
        using Cons.prems False nf
        by (simp add: findAndUpdate_Cons del: findAndUpdateSubtask.simps(2))
      from Cons.IH(2) [OF fr] obtain pre x post where
        p: "tree_nodes rest = pre @ x # post" "sub_id x = i" "i \<notin> set (map sub_id pre)"
           "tree_nodes (snd (findAndUpdateSubtask now b rest i)) = pre @ applySubtaskBody now b x # post"
        by blast
      have cs_same: "snd (findAndUpdateSubtask now b cs i) = cs"
        using nf by (rule findAndUpdate_unchanged)
      have cs_none: "i \<notin> set (map sub_id (tree_nodes cs))"
        using nf findAndUpdate_found by blast
      have a: "tree_nodes (SubTodo f cs # rest) = (f # tree_nodes cs @ pre) @ x # post"
        using p(1) by (simp add: tree_nodes_Cons)
      have b: "tree_nodes (snd (findAndUpdateSubtask now b (SubTodo f cs # rest) i))
          = (f # tree_nodes cs @ pre) @ applySubtaskBody now b x # post"
        using False nf p(4) cs_same
        by (simp add: findAndUpdate_Cons tree_nodes_Cons del: findAndUpdateSubtask.simps(2))
      have c: "i \<notin> set (map sub_id (f # tree_nodes cs @ pre))"
        using False p(3) cs_none by auto
      show ?thesis using a b c p(2) by blast
    qed
  qed
qed


lemma applySubtaskBody_fields:
  "sub_id (applySubtaskBody now b f) = sub_id f"
  "sub_title (applySubtaskBody now b f) =
     (case sb_title b of Some v \<Rightarrow> if v \<noteq> [] then v else sub_title f | None \<Rightarrow> sub_title f)"
  "sub_description (applySubtaskBody now b f) =
     (case sb_description b of Some v \<Rightarrow> v | None \<Rightarrow> sub_description f)"
  "sub_status (applySubtaskBody now b f) =
     (case sb_status b of Some v \<Rightarrow> v | None \<Rightarrow> sub_status f)"
  "sub_priority (applySubtaskBody now b f) =
     (case sb_priority b of Some v \<Rightarrow> v | None \<Rightarrow> sub_priority f)"
  "sub_dueDate (applySubtaskBody now b f) =
     (case sb_dueDate b of Some v \<Rightarrow> Some v | None \<Rightarrow> sub_dueDate f)"
  "sub_completed (applySubtaskBody now b f) =
     (case sb_completed b of Some v \<Rightarrow> v | None \<Rightarrow> sub_completed f)"
  "sub_completedAt (applySubtaskBody now b f) =
     (if sb_completed b = Some True then Some now else sub_completedAt f)"
  by (simp_all add: applySubtaskBody_def Let_def split: option.splits)

lemma validateSubtask_title:
  "validateSubtask b = None \<Longrightarrow> \<exists>v. sb_title b = Some v \<and> v \<noteq> []"
  by (auto simp: validateSubtask_def split: option.splits if_splits)

lemma updateSubtask_owner:
  "findById todoId db = Some t \<Longrightarrow> userId t = uid \<Longrightarrow>
     updateSubtask now uid todoId i b db =
       (if fst (findAndUpdateSubtask now b (subtasks t) i)
        then Inr (save now t
               (t\<lparr>subtasks := snd (findAndUpdateSubtask now b (subtasks t) i),
                  activityLog := activityLog t @
                    [\<lparr>action = ActUpdated, log_userId = uid,
                      changes = Some (Updated ''subtask''), timestamp = now\<rparr>]\<rparr>) db)
        else Inl (ApiError 404 ''Subtask not found''))"
  by (simp add: updateSubtask_def Let_def split_def)

lemmas example_defs = buyMilk_def pickBrand_def goToShop_def deletedMilk_def emptyBody_def
  emptySubtaskBody_def uncheckBody_def retitleBody_def finishBody_def schemaDefaults_def

text \<open>The two schema methods assign \<^verbatim>\<open>completed\<close>, \<^verbatim>\<open>status\<close> and \<^verbatim>\<open>completedAt\<close> together.\<close>

lemma complete_sync:
  "completed (fst (complete now t db)) = True
   \<and> status (fst (complete now t db)) = Completed
   \<and> completedAt (fst (complete now t db)) = Some now"
  by (simp add: complete_def)

lemma incomplete_sync:
  "completed (fst (incomplete now t db)) = False
   \<and> status (fst (incomplete now t db)) = Todo
   \<and> completedAt (fst (incomplete now t db)) = None"
  by (simp add: incomplete_def)

section \<open>Requests on a missing todo\<close>

lemma controller_missing:
  "findById i db = None \<Longrightarrow>
     controller now nid users uid i r db =
       Inl (case bodyError r of Some e \<Rightarrow> e | None \<Rightarrow> ApiError 404 ''Todo not found'')"
  by (cases r) (auto simp: controller_defs split: option.splits)

lemma controller_resolves:
  "findById i db = Some t \<Longrightarrow>
     controller now nid users uid i r db \<noteq> Inl (ApiError 404 ''Todo not found'')"
  by (cases r) (auto simp: controller_defs Let_def split_def split: option.splits)

section \<open>Sequences of requests\<close>

lemma controller_frame:
  "findById i db = Some d \<Longrightarrow> i \<noteq> j \<Longrightarrow> controller now nid users uid j r db = Inr db1 \<Longrightarrow>
     findById i db1 = Some d"
  by (cases r)
     (auto simp: controller_defs Let_def split_def findById_save findById_append
         findById_replaceOne create_eq
      split: option.splits if_splits dest: findById_tid)

lemma serve_frame:
  "findById i db = Some d \<Longrightarrow> \<forall>c \<in> set calls. target c \<noteq> i \<Longrightarrow>
     findById i (serve users calls db) = Some d"
proof (induction calls arbitrary: db)
  case Nil
  then show ?case by simp
next
  case (Cons c calls)
  let ?r = "controller (at c) (fresh c) users (actor c) (target c) (req c) db"
  have "findById i (case ?r of Inl e \<Rightarrow> db | Inr db1 \<Rightarrow> db1) = Some d"
  proof (cases ?r)
    case (Inl e)
    then show ?thesis using Cons.prems(1) by simp
  next
    case (Inr db1)
    then show ?thesis
      using controller_frame [OF Cons.prems(1) _ Inr] Cons.prems(2) by auto
  qed
  then show ?case using Cons.IH Cons.prems(2) by simp
qed

lemma findById_mem: "findById i db = Some d \<Longrightarrow> i \<in> set (map tid db)"
  by (induction db) (auto split: if_splits)

lemma findById_None: "i \<notin> set (map tid db) \<Longrightarrow> findById i db = None"
  by (induction db) auto

lemma jsonCopy_id: "jsonCopy s = s"
proof (induction s)
  case (SubTodo f cs)
  have "map jsonCopy cs = cs" using SubTodo by (simp add: map_idI)
  then show ?case by simp
qed

lemma map_jsonCopy: "map jsonCopy ts = ts"
  by (simp add: jsonCopy_id map_idI)

lemma controller_target:
  "findById i db = Some t \<Longrightarrow> controller now nid users uid i r db = Inr db1 \<Longrightarrow>
     \<exists>t1. findById i db1 = Some t1 \<and> userId t1 = userId t
       \<and> set (map share_userId (sharedWith t1))
           \<subseteq> set (map share_userId (sharedWith t)) \<union> set_option (shareTarget r)"
  by (cases r)
     (auto simp: controller_defs Let_def split_def findById_save findById_append
         findById_replaceOne create_eq
      split: option.splits if_splits dest: findById_tid)


lemma serve_owner_not_shared:
  "findById i db = Some t \<Longrightarrow> userId t \<notin> set (map share_userId (sharedWith t)) \<Longrightarrow>
   \<forall>c \<in> set calls. target c = i \<longrightarrow> shareTarget (req c) \<noteq> Some (userId t) \<Longrightarrow>
     \<exists>t1. findById i (serve users calls db) = Some t1 \<and> userId t1 = userId t
       \<and> userId t1 \<notin> set (map share_userId (sharedWith t1))"
proof (induction calls arbitrary: db t)
  case Nil
  then show ?case by simp
next
  case (Cons c calls)
  let ?r = "controller (at c) (fresh c) users (actor c) (target c) (req c) db"
  let ?db = "case ?r of Inl e \<Rightarrow> db | Inr db1 \<Rightarrow> db1"
  have "\<exists>t1. findById i ?db = Some t1 \<and> userId t1 = userId t
       \<and> userId t1 \<notin> set (map share_userId (sharedWith t1))"
  proof (cases ?r)
    case (Inl e)
    then show ?thesis using Cons.prems(1,2) by simp
  next
    case (Inr db1)
    show ?thesis
    proof (cases "target c = i")
      case True
      from controller_target [OF Cons.prems(1) Inr [unfolded True]] obtain t1 where
        t1: "findById i db1 = Some t1" "userId t1 = userId t"
          "set (map share_userId (sharedWith t1))
             \<subseteq> set (map share_userId (sharedWith t)) \<union> set_option (shareTarget (req c))"
        by blast
      have "shareTarget (req c) \<noteq> Some (userId t)" using Cons.prems(3) True by simp
      then have "userId t \<notin> set_option (shareTarget (req c))"
        by (cases "shareTarget (req c)") auto
      then have "userId t1 \<notin> set (map share_userId (sharedWith t1))"
        using t1(2,3) Cons.prems(2) by auto
      then show ?thesis using t1(1,2) Inr by simp
    next
      case False
      have "findById i db1 = Some t"
        using controller_frame [OF Cons.prems(1) _ Inr] False by auto
      then show ?thesis using Cons.prems(2) Inr by simp
    qed
  qed
  then obtain t1 where t1: "findById i ?db = Some t1" "userId t1 = userId t"
      "userId t1 \<notin> set (map share_userId (sharedWith t1))"
    by blast
  have "\<forall>c \<in> set calls. target c = i \<longrightarrow> shareTarget (req c) \<noteq> Some (userId t1)"
    using Cons.prems(3) t1(2) by simp
  from Cons.IH [OF t1(1) t1(3) this] show ?case using t1(2) by simp
qed

lemma shareTodo_rejects:
  "findById i db = Some t \<Longrightarrow> userId t = uid \<Longrightarrow>
   parsePermission (case perms of None \<Rightarrow> ''view'' | Some p \<Rightarrow> p) \<noteq> None \<Longrightarrow>
     (x \<in> set (map share_userId (sharedWith t)) \<longrightarrow>
        shareTodo now users uid i (Some x) perms db =
          Inl (ApiError 400 ''Todo already shared with this user''))
     \<and> (x \<notin> set (map share_userId (sharedWith t)) \<and> x \<notin> users \<longrightarrow>
        shareTodo now users uid i (Some x) perms db = Inl (ApiError 404 ''User not found''))"
  by (auto simp: shareTodo_def split: option.splits)

section \<open>Soft deletion and the queries\<close>

lemma map_tid_replaceOne: "map tid (replaceOne t db) = map tid db"
  by (induction db) auto

lemma replaceOne_distinct:
  "distinct (map tid db) \<Longrightarrow> x \<in> set (replaceOne t db) \<Longrightarrow> tid x = tid t \<Longrightarrow> x = t"
  by (induction db) (auto simp: image_iff split: if_splits)

lemma deleteTodo_flags:
  assumes "distinct (map tid db)" and "deleteTodo now owner i db = Inr db1"
  shows "map tid db1 = map tid db \<and> (\<forall>x \<in> set db1. tid x = i \<longrightarrow> isDeleted x)"
proof -
  from assms(2) obtain t where t: "findById i db = Some t"
    and db1: "db1 = replaceOne (t\<lparr>isDeleted := True, deletedAt := Some now\<rparr>) db"
    by (auto simp: deleteTodo_def softDelete_def split: option.splits if_splits)
  have ti: "tid t = i" using t by (rule findById_tid)
  have "\<forall>x \<in> set db1. tid x = i \<longrightarrow> isDeleted x"
  proof (intro ballI impI)
    fix x assume "x \<in> set db1" "tid x = i"
    then have "x = t\<lparr>isDeleted := True, deletedAt := Some now\<rparr>"
      using replaceOne_distinct [OF assms(1), of x "t\<lparr>isDeleted := True, deletedAt := Some now\<rparr>"]
        db1 ti by simp
    then show "isDeleted x" by simp
  qed
  then show ?thesis using db1 by (simp add: map_tid_replaceOne)
qed

lemma bulk_all_owned:
  assumes "distinct (map tid db)"
    and "length (filter (\<lambda>d. tid d \<in> set ids \<and> userId d = uid) db) = length ids"
  shows "\<forall>x \<in> set db. tid x \<in> set ids \<longrightarrow> userId x = uid"
proof -
  let ?S = "filter (\<lambda>d. tid d \<in> set ids \<and> userId d = uid) db"
  have d: "distinct (map tid ?S)" using assms(1) by (rule distinct_map_filter)
  have sub: "set (map tid ?S) \<subseteq> set ids" by auto
  have "card (set (map tid ?S)) = length (map tid ?S)" using d by (rule distinct_card)
  then have "card (set (map tid ?S)) = length ids" using assms(2) by simp
  moreover have "card (set ids) \<le> length ids" by (rule card_length)
  moreover have "card (set (map tid ?S)) \<le> card (set ids)"
    using sub by (rule card_mono [OF finite_set])
  ultimately have "card (set (map tid ?S)) = card (set ids)" by linarith
  then have eq: "set (map tid ?S) = set ids"
    using sub by (rule card_subset_eq [OF finite_set, rotated])
  show ?thesis
  proof (intro ballI impI)
    fix x assume x: "x \<in> set db" "tid x \<in> set ids"
    then have "tid x \<in> set (map tid ?S)" using eq by (simp only:)
    then have "tid x \<in> tid ` set ?S" by (simp only: set_map)
    then obtain y where y: "y \<in> set ?S" "tid x = tid y" by (rule imageE)
    have yd: "y \<in> set db" and yu: "userId y = uid" using y(1) by simp_all
    have inj: "inj_on tid (set db)" using assms(1) by (simp only: distinct_map)
    have "x = y" by (rule inj_onD [OF inj y(2) x(1) yd])
    then show "userId x = uid" using yu by simp
  qed
qed


lemma bulkDeleteTodos_flags:
  assumes "distinct (map tid db)" and "bulkDeleteTodos now uid ids db = Inr db1"
  shows "map tid db1 = map tid db \<and> (\<forall>x \<in> set db1. tid x \<in> set ids \<longrightarrow> isDeleted x)"
proof -
  let ?f = "\<lambda>d. if tid d \<in> set ids \<and> userId d = uid
                 then d\<lparr>isDeleted := True, deletedAt := Some now\<rparr> else d"
  have len: "length (filter (\<lambda>d. tid d \<in> set ids \<and> userId d = uid) db) = length ids"
    using assms(2) by (simp add: bulkDeleteTodos_def Let_def split: if_splits)
  have db1: "db1 = map ?f db"
    using assms(2) by (simp add: bulkDeleteTodos_def Let_def split: if_splits)
  have own: "\<forall>x \<in> set db. tid x \<in> set ids \<longrightarrow> userId x = uid"
    using assms(1) len by (rule bulk_all_owned)
  have t: "\<And>d. tid (?f d) = tid d" by simp
  have ids: "map tid (map ?f db) = map tid db"
    by (simp only: map_map o_def t)
  have fl: "\<forall>x \<in> set (map ?f db). tid x \<in> set ids \<longrightarrow> isDeleted x"
  proof (intro ballI impI)
    fix x assume "x \<in> set (map ?f db)" and xi: "tid x \<in> set ids"
    then obtain d where d: "d \<in> set db" "x = ?f d" by auto
    have "tid d \<in> set ids" using xi d(2) t [of d] by simp
    then have "userId d = uid" using own d(1) by simp
    then show "isDeleted x" using d(2) \<open>tid d \<in> set ids\<close> by simp
  qed
  show ?thesis using ids fl by (simp only: db1 simp_thms)
qed

lemma filter_skip_deleted:
  assumes "\<And>x. P x \<Longrightarrow> \<not> isDeleted x"
  shows "filter P (filter (\<lambda>x. \<not> isDeleted x) db) = filter P db"
  using assms by (induction db) auto

lemma count_skip_deleted:
  assumes "\<And>x. P x \<Longrightarrow> \<not> isDeleted x"
  shows "countDocuments P (filter (\<lambda>x. \<not> isDeleted x) db) = countDocuments P db"
  unfolding countDocuments_def using filter_skip_deleted [of P db] assms by simp

lemma getAllTags_skip_deleted:
  "getAllTags uid (filter (\<lambda>x. \<not> isDeleted x) db) = getAllTags uid db"
proof -
  have "filter (\<lambda>d. userId d = uid \<and> isDeleted d = False) (filter (\<lambda>x. \<not> isDeleted x) db)
      = filter (\<lambda>d. userId d = uid \<and> isDeleted d = False) db"
    by (rule filter_skip_deleted) simp
  then show ?thesis unfolding getAllTags_def by (simp only:)
qed

lemma findOverdue_skip_deleted:
  "findOverdue now uid (filter (\<lambda>x. \<not> isDeleted x) db) = findOverdue now uid db"
  unfolding findOverdue_def by (rule filter_skip_deleted) simp

lemma getTodoStats_skip_deleted:
  "getTodoStats now uid (filter (\<lambda>x. \<not> isDeleted x) db) = getTodoStats now uid db"
proof -
  have c1: "countDocuments (\<lambda>d. userId d = uid \<and> status d = Todo \<and> isDeleted d = False)
        (filter (\<lambda>x. \<not> isDeleted x) db)
      = countDocuments (\<lambda>d. userId d = uid \<and> status d = Todo \<and> isDeleted d = False) db"
    by (rule count_skip_deleted) simp
  have c2: "countDocuments (\<lambda>d. userId d = uid \<and> status d = InProgress \<and> isDeleted d = False)
        (filter (\<lambda>x. \<not> isDeleted x) db)
      = countDocuments (\<lambda>d. userId d = uid \<and> status d = InProgress \<and> isDeleted d = False) db"
    by (rule count_skip_deleted) simp
  have c3: "countDocuments (\<lambda>d. userId d = uid \<and> status d = Completed \<and> isDeleted d = False)
        (filter (\<lambda>x. \<not> isDeleted x) db)
      = countDocuments (\<lambda>d. userId d = uid \<and> status d = Completed \<and> isDeleted d = False) db"
    by (rule count_skip_deleted) simp
  have c4: "countDocuments (\<lambda>d. userId d = uid \<and> status d = Blocked \<and> isDeleted d = False)
        (filter (\<lambda>x. \<not> isDeleted x) db)
      = countDocuments (\<lambda>d. userId d = uid \<and> status d = Blocked \<and> isDeleted d = False) db"
    by (rule count_skip_deleted) simp
  have u: "filter (\<lambda>d. userId d = uid \<and> priority d = Urgent \<and> completed d = False
                       \<and> isDeleted d = False) (filter (\<lambda>x. \<not> isDeleted x) db)
      = filter (\<lambda>d. userId d = uid \<and> priority d = Urgent \<and> completed d = False
                       \<and> isDeleted d = False) db"
    by (rule filter_skip_deleted) simp
  show ?thesis
    unfolding getTodoStats_def by (simp only: c1 c2 c3 c4 u findOverdue_skip_deleted)
qed

section \<open>Claims\<close>






text \<open>
  C10. When a subtask update carries \<^verbatim>\<open>completed: false\<close>, the patched node has its
  completed flag cleared and its \<^verbatim>\<open>completedAt\<close> as before, and so has every node of the
  tree: \<^verbatim>\<open>completedAt\<close> is written only when completed is set to true and never
  cleared. A node that was completed is left with \<^verbatim>\<open>completed = false\<close> and a
  \<^verbatim>\<open>completedAt\<close> that is not null.
\<close>

theorem uncomplete_keeps_completedAt:
  assumes "sb_completed b = Some False"
  shows "sub_completed (applySubtaskBody now b f) = False
    \<and> sub_completedAt (applySubtaskBody now b f) = sub_completedAt f
    \<and> map sub_completedAt (tree_nodes (snd (findAndUpdateSubtask now b ts i)))
        = map sub_completedAt (tree_nodes ts)"
proof -
  have a: "sub_completed (applySubtaskBody now b f) = False"
    and c: "\<And>g. sub_completedAt (applySubtaskBody now b g) = sub_completedAt g"
    using assms by (simp_all add: applySubtaskBody_fields)
  have t: "map sub_completedAt (tree_nodes (snd (findAndUpdateSubtask now b ts i)))
        = map sub_completedAt (tree_nodes ts)"
  proof (cases "fst (findAndUpdateSubtask now b ts i)")
    case True
    from findAndUpdate_first_match [OF True] obtain pre x post where
      "tree_nodes ts = pre @ x # post"
      "tree_nodes (snd (findAndUpdateSubtask now b ts i)) = pre @ applySubtaskBody now b x # post"
      by blast
    then show ?thesis using c by simp
  next
    case False
    then show ?thesis by (simp add: findAndUpdate_unchanged)
  qed
  from a c [of f] t show ?thesis by (intro conjI)
qed

theorem uncomplete_keeps_completedAt_witness:
  "sb_completed uncheckBody = Some False
   \<and> sub_completed (node_fields pickBrand)
   \<and> \<not> sub_completed (applySubtaskBody 60 uncheckBody (node_fields pickBrand))
   \<and> sub_completedAt (applySubtaskBody 60 uncheckBody (node_fields pickBrand)) = Some 40"
proof -
  have h: "sb_completed uncheckBody = Some False"
    by (simp add: uncheckBody_def emptySubtaskBody_def)
  have p: "sub_completed (node_fields pickBrand)
      \<and> sub_completedAt (node_fields pickBrand) = Some 40"
    by (simp add: pickBrand_def)
  show ?thesis
    using h p uncomplete_keeps_completedAt [OF h, of 60 "node_fields pickBrand" "[]" 0]
    by simp
qed










text \<open>
  C2. \<^verbatim>\<open>completed = true\<close> exactly when \<^verbatim>\<open>status = 'completed'\<close>, after every lifecycle
  operation. \<^verbatim>\<open>complete()\<close> and \<^verbatim>\<open>incomplete()\<close> assign the three fields together, but
  \<^verbatim>\<open>updateTodo\<close> assigns \<^verbatim>\<open>status\<close> alone: the owner's update of the example todo to
  status completed leaves \<^verbatim>\<open>completed = false\<close> and \<^verbatim>\<open>completedAt = null\<close>.
\<close>

theorem updateTodo_status_without_completed:
  "status buyMilk = Todo \<and> completed buyMilk = False
   \<and> updateTodo 60 7 1 finishBody [buyMilk] =
       Inr (buyMilk\<lparr>status := Completed,
              activityLog := activityLog buyMilk @
                [\<lparr>action = ActUpdated, log_userId = 7,
                  changes = Some (FieldChanges (noChanges\<lparr>ch_status := Some (Todo, Completed)\<rparr>)),
                  timestamp = 60\<rparr>,
                 \<lparr>action = ActUpdated, log_userId = 7, changes = None, timestamp = 60\<rparr>]\<rparr>,
            [buyMilk\<lparr>status := Completed,
              activityLog := activityLog buyMilk @
                [\<lparr>action = ActUpdated, log_userId = 7,
                  changes = Some (FieldChanges (noChanges\<lparr>ch_status := Some (Todo, Completed)\<rparr>)),
                  timestamp = 60\<rparr>,
                 \<lparr>action = ActUpdated, log_userId = 7, changes = None, timestamp = 60\<rparr>]\<rparr>])
   \<and> completed (buyMilk\<lparr>status := Completed\<rparr>) = False
   \<and> completedAt (buyMilk\<lparr>status := Completed\<rparr>) = None"
  by (simp add: updateTodo_def applyTodoBody_def updTitle_def updDescription_def updStatus_def
      updPriority_def updDueDate_def updCategory_def updTags_def updLabel_def noChanges_def
      Let_def save_def preSaveProgress_def preSaveActivity_def calculateProgress_def
      example_defs)

text \<open>
  C5. \<^verbatim>\<open>logTime\<close> rejects minutes outside 1..1440 and logs one \<^verbatim>\<open>updated\<close> entry per
  call. \<^verbatim>\<open>validateTimeTracking\<close> rejects 1441 minutes, but the time-tracking route does
  not mount it and \<^verbatim>\<open>logTimeSpent\<close> checks only for a positive value: 1441 minutes are
  added to \<^verbatim>\<open>actualTime\<close>. The call appends two \<^verbatim>\<open>updated\<close> entries, the controller's
  with the minutes and the save hook's.
\<close>

theorem logTimeSpent_accepts_1441:
  "validateTimeTracking (Some 1441) =
     Some (ApiError 400 ''Time spent cannot exceed 24 hours (1440 minutes)'')
   \<and> actualTime buyMilk = 0
   \<and> logTimeSpent 60 7 1 (Some 1441) [buyMilk] =
       Inr (buyMilk\<lparr>actualTime := 1441,
              activityLog := activityLog buyMilk @
                [\<lparr>action = ActUpdated, log_userId = 7, changes = Some (TimeLogged 1441),
                  timestamp = 60\<rparr>,
                 \<lparr>action = ActUpdated, log_userId = 7, changes = None, timestamp = 60\<rparr>]\<rparr>,
            [buyMilk\<lparr>actualTime := 1441,
              activityLog := activityLog buyMilk @
                [\<lparr>action = ActUpdated, log_userId = 7, changes = Some (TimeLogged 1441),
                  timestamp = 60\<rparr>,
                 \<lparr>action = ActUpdated, log_userId = 7, changes = None, timestamp = 60\<rparr>]\<rparr>])"
  by (simp add: validateTimeTracking_def logTimeSpent_def Let_def save_def preSaveProgress_def
      preSaveActivity_def calculateProgress_def example_defs)










text \<open>
  C8. A todo with \<^verbatim>\<open>isDeleted = true\<close> is in the result of no listing or search of
  any user (all todos, by status, by priority, by tag, overdue, due today, archived,
  free-text search), and the distinct tags and the statistics are those of the
  collection without the soft-deleted documents. A soft delete, single or bulk, removes
  no document: the ids of the collection are as before, and where ids are unique every
  document with a deleted id carries the flag right after the call, so it is in none of
  these results.
\<close>

theorem soft_deleted_never_listed:
  assumes "isDeleted d"
  shows "d \<notin> set (getAllTodos uid st pr cat db)
    \<and> d \<notin> set (getTodosByStatus uid s db)
    \<and> d \<notin> set (getTodosByPriority uid p db)
    \<and> d \<notin> set (getTodosByTag uid tag db)
    \<and> d \<notin> set (getOverdueTodos now uid db)
    \<and> d \<notin> set (getTodayTodos startOfDay endOfDay uid db)
    \<and> d \<notin> set (getArchivedTodos uid db)
    \<and> (searchTodos regex uid query db = Inr found \<longrightarrow> d \<notin> set found)
    \<and> getAllTags uid db = getAllTags uid (filter (\<lambda>x. \<not> isDeleted x) db)
    \<and> getTodoStats now uid db = getTodoStats now uid (filter (\<lambda>x. \<not> isDeleted x) db)
    \<and> (distinct (map tid db) \<and> deleteTodo now uid i db = Inr db1 \<longrightarrow>
          map tid db1 = map tid db \<and> (\<forall>x \<in> set db1. tid x = i \<longrightarrow> isDeleted x))
    \<and> (distinct (map tid db) \<and> bulkDeleteTodos now uid ids db = Inr db2 \<longrightarrow>
          map tid db2 = map tid db \<and> (\<forall>x \<in> set db2. tid x \<in> set ids \<longrightarrow> isDeleted x))"
proof -
  have l1: "d \<notin> set (getAllTodos uid st pr cat db)"
    using assms by (simp add: getAllTodos_def)
  have l2: "d \<notin> set (getTodosByStatus uid s db)"
    using assms by (simp add: getTodosByStatus_def findByUserAndStatus_def)
  have l3: "d \<notin> set (getTodosByPriority uid p db)"
    using assms by (simp add: getTodosByPriority_def findByPriority_def)
  have l4: "d \<notin> set (getTodosByTag uid tag db)"
    using assms by (simp add: getTodosByTag_def)
  have l5: "d \<notin> set (getOverdueTodos now uid db)"
    using assms by (simp add: getOverdueTodos_def findOverdue_def)
  have l6: "d \<notin> set (getTodayTodos startOfDay endOfDay uid db)"
    using assms by (simp add: getTodayTodos_def)
  have l7: "d \<notin> set (getArchivedTodos uid db)"
    using assms by (simp add: getArchivedTodos_def)
  have l8: "searchTodos regex uid query db = Inr found \<longrightarrow> d \<notin> set found"
    using assms by (auto simp: searchTodos_def split: if_splits)
  have l9: "getAllTags uid db = getAllTags uid (filter (\<lambda>x. \<not> isDeleted x) db)"
    by (simp only: getAllTags_skip_deleted)
  have l10: "getTodoStats now uid db = getTodoStats now uid (filter (\<lambda>x. \<not> isDeleted x) db)"
    by (simp only: getTodoStats_skip_deleted)
  have l11: "distinct (map tid db) \<and> deleteTodo now uid i db = Inr db1 \<longrightarrow>
          map tid db1 = map tid db \<and> (\<forall>x \<in> set db1. tid x = i \<longrightarrow> isDeleted x)"
    using deleteTodo_flags [of db now uid i db1] by simp
  have l12: "distinct (map tid db) \<and> bulkDeleteTodos now uid ids db = Inr db2 \<longrightarrow>
          map tid db2 = map tid db \<and> (\<forall>x \<in> set db2. tid x \<in> set ids \<longrightarrow> isDeleted x)"
    using bulkDeleteTodos_flags [of db now uid ids db2] by simp
  show ?thesis
    by (intro conjI; fact)
qed

theorem soft_deleted_never_listed_witness:
  "isDeleted deletedMilk \<and> userId deletedMilk = 7
   \<and> deletedMilk \<notin> set (getAllTodos 7 None None None [deletedMilk, buyMilk])
   \<and> deletedMilk \<notin> set (getTodosByStatus 7 Todo [deletedMilk, buyMilk])
   \<and> distinct (map tid [buyMilk])
   \<and> deleteTodo 60 7 1 [buyMilk] = Inr [buyMilk\<lparr>isDeleted := True, deletedAt := Some 60\<rparr>]
   \<and> map tid [buyMilk\<lparr>isDeleted := True, deletedAt := Some 60\<rparr>] = map tid [buyMilk]
   \<and> isDeleted (buyMilk\<lparr>isDeleted := True, deletedAt := Some 60\<rparr>)"
proof -
  have h: "isDeleted deletedMilk" and u: "userId deletedMilk = 7"
    by (simp_all add: deletedMilk_def buyMilk_def schemaDefaults_def)
  have dist: "distinct (map tid [buyMilk])" by simp
  have del: "deleteTodo 60 7 1 [buyMilk] = Inr [buyMilk\<lparr>isDeleted := True, deletedAt := Some 60\<rparr>]"
    by (simp add: deleteTodo_def softDelete_def buyMilk_def schemaDefaults_def)
  note a = soft_deleted_never_listed [OF h, of 7 None None None "[deletedMilk, buyMilk]" Todo]
  note b = soft_deleted_never_listed [OF h, of 7 None None None "[buyMilk]" Todo Low "[]" 60 0 0
      "\<lambda>q s. False" "[]" "[]" 1 "[buyMilk\<lparr>isDeleted := True, deletedAt := Some 60\<rparr>]"]
  have a1: "deletedMilk \<notin> set (getAllTodos 7 None None None [deletedMilk, buyMilk])"
    and a2: "deletedMilk \<notin> set (getTodosByStatus 7 Todo [deletedMilk, buyMilk])"
    using a by blast+
  have b1: "map tid [buyMilk\<lparr>isDeleted := True, deletedAt := Some 60\<rparr>] = map tid [buyMilk]
      \<and> (\<forall>x \<in> set [buyMilk\<lparr>isDeleted := True, deletedAt := Some 60\<rparr>]. tid x = 1 \<longrightarrow> isDeleted x)"
    using b dist del by blast
  have t: "tid (buyMilk\<lparr>isDeleted := True, deletedAt := Some 60\<rparr>) = 1"
    by (simp add: buyMilk_def schemaDefaults_def)
  have b2: "isDeleted (buyMilk\<lparr>isDeleted := True, deletedAt := Some 60\<rparr>)"
    using b1 t by simp
  show ?thesis using h u a1 a2 dist del b1 b2 by blast
qed


end
